theory Spec2Isabelle
  imports Complex_Main "HOL-Library.Word"
begin

unbundle bit_operations_syntax

section \<open>Complex and Jones arithmetic (gpu/common.cuh)\<close>

text \<open>
  \<^verbatim>\<open>FLOAT\<close> is \<^verbatim>\<open>float\<close> or \<^verbatim>\<open>double\<close>, chosen when the code is compiled. The
  arithmetic below is written over any type \<open>'f\<close> that has \<open>+\<close>, \<open>-\<close>, \<open>*\<close> and unary
  minus, with no law assumed of them: every equation proved at this type holds for
  machine floats with the operations in the order the source evaluates them, and for the
  real numbers too.

  \<^verbatim>\<open>COMPLEX\<close> is cuComplex's pair of fields \<^verbatim>\<open>x\<close> (real part) and \<^verbatim>\<open>y\<close> (imaginary
  part), built by \<^verbatim>\<open>MAKE_COMPLEX\<close>; the selectors are called \<open>cx\<close> and \<open>cy\<close> here.
\<close>

datatype 'f COMPLEX = MAKE_COMPLEX (cx: 'f) (cy: 'f)

text \<open>\<^verbatim>\<open>CUCONJ\<close> is cuConj / cuConjf: the imaginary part negated.\<close>

definition CUCONJ :: "'f::uminus COMPLEX \<Rightarrow> 'f COMPLEX" where
  "CUCONJ a = MAKE_COMPLEX (cx a) (- cy a)"

text \<open>\<^verbatim>\<open>COMPLEX operator+(const COMPLEX a, const COMPLEX b)\<close>\<close>

definition complex_add :: "'f::plus COMPLEX \<Rightarrow> 'f COMPLEX \<Rightarrow> 'f COMPLEX" where
  "complex_add a b = MAKE_COMPLEX (cx a + cx b) (cy a + cy b)"

text \<open>\<^verbatim>\<open>COMPLEX operator*(const COMPLEX a, const COMPLEX b)\<close>\<close>

definition complex_mul :: "'f::{plus,minus,times} COMPLEX \<Rightarrow> 'f COMPLEX \<Rightarrow> 'f COMPLEX" where
  "complex_mul a b = MAKE_COMPLEX (cx a * cx b - cy a * cy b) (cx a * cy b + cy a * cx b)"

text \<open>
  \<^verbatim>\<open>void operator*=(COMPLEX &a, const COMPLEX b)\<close>: the function returns the value the
  reference \<open>a\<close> holds after the assignment. \<open>b\<close> is passed by value, so it never
  aliases \<open>a\<close>, and both arguments of \<^verbatim>\<open>MAKE_COMPLEX\<close> are evaluated before \<open>a\<close> is
  written.
\<close>

definition complex_mul_assign :: "'f::{plus,minus,times} COMPLEX \<Rightarrow> 'f COMPLEX \<Rightarrow> 'f COMPLEX" where
  "complex_mul_assign a b =
     (let a' = MAKE_COMPLEX (cx a * cx b - cy a * cy b) (cx a * cy b + cy a * cx b) in a')"

text \<open>\<^verbatim>\<open>COMPLEX operator*(const COMPLEX a, const FLOAT b)\<close>\<close>

definition complex_scale :: "'f::times COMPLEX \<Rightarrow> 'f \<Rightarrow> 'f COMPLEX" where
  "complex_scale a b = MAKE_COMPLEX (cx a * b) (cy a * b)"

text \<open>\<^verbatim>\<open>void operator+=(COMPLEX &a, const COMPLEX b)\<close>: two field updates in sequence.\<close>

definition complex_add_assign :: "'f::plus COMPLEX \<Rightarrow> 'f COMPLEX \<Rightarrow> 'f COMPLEX" where
  "complex_add_assign a b =
     (let a1 = MAKE_COMPLEX (cx a + cx b) (cy a);
          a2 = MAKE_COMPLEX (cx a1) (cy a1 + cy b)
      in a2)"

text \<open>
  \<^verbatim>\<open>JONES\<close> (JonesF32 or JonesF64): eight scalar fields, in the order the designated
  initialisers of the source list them.
\<close>

record 'f JONES =
  j00_re :: 'f
  j00_im :: 'f
  j01_re :: 'f
  j01_im :: 'f
  j10_re :: 'f
  j10_im :: 'f
  j11_re :: 'f
  j11_im :: 'f

text \<open>\<^verbatim>\<open>JONES_C\<close>: the same matrix as four complex entries.\<close>

record 'f JONES_C =
  j00 :: "'f COMPLEX"
  j01 :: "'f COMPLEX"
  j10 :: "'f COMPLEX"
  j11 :: "'f COMPLEX"

text \<open>
  The pointer casts \<^verbatim>\<open>(JONES_C *)j\<close> of \<^verbatim>\<open>apply_beam\<close> read the eight scalars as four
  (x, y) pairs in order; writing through the cast pointer writes the scalars back.
\<close>

definition jones_as_c :: "'f JONES \<Rightarrow> 'f JONES_C" where
  "jones_as_c j =
     \<lparr>j00 = MAKE_COMPLEX (j00_re j) (j00_im j),
      j01 = MAKE_COMPLEX (j01_re j) (j01_im j),
      j10 = MAKE_COMPLEX (j10_re j) (j10_im j),
      j11 = MAKE_COMPLEX (j11_re j) (j11_im j)\<rparr>"

definition c_as_jones :: "'f JONES_C \<Rightarrow> 'f JONES" where
  "c_as_jones c =
     \<lparr>j00_re = cx (j00 c), j00_im = cy (j00 c),
      j01_re = cx (j01 c), j01_im = cy (j01 c),
      j10_re = cx (j10 c), j10_im = cy (j10 c),
      j11_re = cx (j11 c), j11_im = cy (j11 c)\<rparr>"

text \<open>\<^verbatim>\<open>JONES operator*(const JONES a, const FLOAT b)\<close>\<close>

definition jones_scale :: "'f::times JONES \<Rightarrow> 'f \<Rightarrow> 'f JONES" where
  "jones_scale a b =
     \<lparr>j00_re = j00_re a * b, j00_im = j00_im a * b,
      j01_re = j01_re a * b, j01_im = j01_im a * b,
      j10_re = j10_re a * b, j10_im = j10_im a * b,
      j11_re = j11_re a * b, j11_im = j11_im a * b\<rparr>"

text \<open>\<^verbatim>\<open>JONES operator*(const JONES a, const COMPLEX b)\<close>\<close>

definition jones_mul_complex :: "'f::{plus,minus,times} JONES \<Rightarrow> 'f COMPLEX \<Rightarrow> 'f JONES" where
  "jones_mul_complex a b =
     \<lparr>j00_re = j00_re a * cx b - j00_im a * cy b,
      j00_im = j00_re a * cy b + j00_im a * cx b,
      j01_re = j01_re a * cx b - j01_im a * cy b,
      j01_im = j01_re a * cy b + j01_im a * cx b,
      j10_re = j10_re a * cx b - j10_im a * cy b,
      j10_im = j10_re a * cy b + j10_im a * cx b,
      j11_re = j11_re a * cx b - j11_im a * cy b,
      j11_im = j11_re a * cy b + j11_im a * cx b\<rparr>"

text \<open>\<^verbatim>\<open>void operator+=(JONES &a, const JONES b)\<close>: eight field updates in sequence.\<close>

definition jones_add_assign :: "'f::plus JONES \<Rightarrow> 'f JONES \<Rightarrow> 'f JONES" where
  "jones_add_assign a b =
     (let a = a\<lparr>j00_re := j00_re a + j00_re b\<rparr>;
          a = a\<lparr>j00_im := j00_im a + j00_im b\<rparr>;
          a = a\<lparr>j01_re := j01_re a + j01_re b\<rparr>;
          a = a\<lparr>j01_im := j01_im a + j01_im b\<rparr>;
          a = a\<lparr>j10_re := j10_re a + j10_re b\<rparr>;
          a = a\<lparr>j10_im := j10_im a + j10_im b\<rparr>;
          a = a\<lparr>j11_re := j11_re a + j11_re b\<rparr>;
          a = a\<lparr>j11_im := j11_im a + j11_im b\<rparr>
      in a)"

text \<open>
  \<^verbatim>\<open>void operator+=(JonesF32 &a, const JonesF64 b)\<close>. The two precisions are two types
  \<open>'s\<close> (float) and \<open>'d\<close> (double). The cast \<^verbatim>\<open>(float)\<close> is the parameter
  \<open>narrow\<close>, and \<open>+\<close> at type \<open>'s\<close> is the single-precision addition; no operation
  from \<open>'s\<close> to \<open>'d\<close> is available to the function.
\<close>

definition jones_add_assign_f32_f64 :: "('d \<Rightarrow> 's::plus) \<Rightarrow> 's JONES \<Rightarrow> 'd JONES \<Rightarrow> 's JONES" where
  "jones_add_assign_f32_f64 narrow a b =
     (let a = a\<lparr>j00_re := j00_re a + narrow (j00_re b)\<rparr>;
          a = a\<lparr>j00_im := j00_im a + narrow (j00_im b)\<rparr>;
          a = a\<lparr>j01_re := j01_re a + narrow (j01_re b)\<rparr>;
          a = a\<lparr>j01_im := j01_im a + narrow (j01_im b)\<rparr>;
          a = a\<lparr>j10_re := j10_re a + narrow (j10_re b)\<rparr>;
          a = a\<lparr>j10_im := j10_im a + narrow (j10_im b)\<rparr>;
          a = a\<lparr>j11_re := j11_re a + narrow (j11_re b)\<rparr>;
          a = a\<lparr>j11_im := j11_im a + narrow (j11_im b)\<rparr>
      in a)"

text \<open>
  \<^verbatim>\<open>void apply_beam(const JONES *j1, JONES *j, const JONES *j2)\<close>: the function returns
  the value \<^verbatim>\<open>*j\<close> holds after the call. \<open>temp\<close> and \<open>j2h\<close> are locals computed
  before the first write through \<open>jc\<close>, so the four writes read nothing they changed.
\<close>

definition apply_beam :: "'f::{plus,minus,times,uminus} JONES \<Rightarrow> 'f JONES \<Rightarrow> 'f JONES \<Rightarrow> 'f JONES" where
  "apply_beam j1 j j2 =
     (let j1c = jones_as_c j1;
          jc = jones_as_c j;
          j2c = jones_as_c j2;
          temp = \<lparr>j00 = complex_add (complex_mul (j00 j1c) (j00 jc)) (complex_mul (j01 j1c) (j10 jc)),
                  j01 = complex_add (complex_mul (j00 j1c) (j01 jc)) (complex_mul (j01 j1c) (j11 jc)),
                  j10 = complex_add (complex_mul (j10 j1c) (j00 jc)) (complex_mul (j11 j1c) (j10 jc)),
                  j11 = complex_add (complex_mul (j10 j1c) (j01 jc)) (complex_mul (j11 j1c) (j11 jc))\<rparr>;
          j2h = \<lparr>j00 = CUCONJ (j00 j2c),
                 j01 = CUCONJ (j10 j2c),
                 j10 = CUCONJ (j01 j2c),
                 j11 = CUCONJ (j11 j2c)\<rparr>;
          jc = jc\<lparr>j00 := complex_add (complex_mul (j00 temp) (j00 j2h)) (complex_mul (j01 temp) (j10 j2h))\<rparr>;
          jc = jc\<lparr>j01 := complex_add (complex_mul (j00 temp) (j01 j2h)) (complex_mul (j01 temp) (j11 j2h))\<rparr>;
          jc = jc\<lparr>j10 := complex_add (complex_mul (j10 temp) (j00 j2h)) (complex_mul (j11 temp) (j10 j2h))\<rparr>;
          jc = jc\<lparr>j11 := complex_add (complex_mul (j10 temp) (j01 j2h)) (complex_mul (j11 temp) (j11 j2h))\<rparr>
      in c_as_jones jc)"


section \<open>The machine: host memory, device memory and the CUDA runtime\<close>

text \<open>
  The runtime calls of the memory functions (\<^verbatim>\<open>cudaMalloc\<close>, \<^verbatim>\<open>cudaMemcpy\<close>,
  \<^verbatim>\<open>cudaMemset\<close>, \<^verbatim>\<open>cudaFree\<close>) are the environment of the program. They act on a
  machine state: host blocks and device blocks, each a list of bytes found by its base
  address (the source only ever passes base addresses), the device bytes still free, the
  next device address to hand out, the bytes a new device block holds before anything
  is written to it, and a queue of statuses the runtime is going to report: each runtime
  call takes the head of the queue, and a head other than \<open>cudaSuccess\<close> makes the call
  fail with that status and no effect (a device fault the program has no control over).
  An empty queue, or a head \<open>cudaSuccess\<close>, leaves the call to its arguments.
\<close>

datatype cudaError =
    cudaSuccess
  | cudaErrorInvalidValue
  | cudaErrorMemoryAllocation
  | cudaErrorLaunchFailure

datatype cudaMemcpyKind = cudaMemcpyHostToDevice | cudaMemcpyDeviceToHost

type_synonym byte = "8 word"
type_synonym c_int = "32 word"
type_synonym size_t = "64 word"
type_synonym ptr = nat

definition NULL :: ptr where
  "NULL = 0"

record machine =
  host :: "ptr \<rightharpoonup> byte list"
  dev :: "ptr \<rightharpoonup> byte list"
  dev_free :: nat
  next_ptr :: ptr
  junk :: "nat \<Rightarrow> byte"
  faults :: "cudaError list"

definition next_fault :: "machine \<Rightarrow> cudaError \<times> machine" where
  "next_fault m =
     (case faults m of
        [] \<Rightarrow> (cudaSuccess, m)
      | e # es \<Rightarrow> (e, m\<lparr>faults := es\<rparr>))"

text \<open>
  \<^verbatim>\<open>cudaMalloc(&p, size)\<close> (\<open>size\<close> is written \<open>size'\<close>): the first argument
  is the value the pointer variable holds before the call, the result carries the value
  it holds after it (unchanged when the call fails). The new block gets the next device
  address.
\<close>

definition cudaMalloc :: "ptr \<Rightarrow> size_t \<Rightarrow> machine \<Rightarrow> (cudaError \<times> ptr) \<times> machine" where
  "cudaMalloc p size' m =
     (case next_fault m of (e, m1) \<Rightarrow>
        if e \<noteq> cudaSuccess then ((e, p), m1)
        else if dev_free m1 < unat size' then ((cudaErrorMemoryAllocation, p), m1)
        else ((cudaSuccess, next_ptr m1),
              m1\<lparr>dev := (dev m1)(next_ptr m1 \<mapsto> map (junk m1) [0..<unat size']),
                 dev_free := dev_free m1 - unat size',
                 next_ptr := Suc (next_ptr m1)\<rparr>))"

text \<open>
  \<^verbatim>\<open>cudaMemcpy(dst, src, count, kind)\<close>: the first \<open>count\<close> bytes of the source block
  replace the first \<open>count\<close> bytes of the destination block. A copy that names a block
  the machine does not have, or more bytes than either block holds, is reported as
  \<open>cudaErrorInvalidValue\<close> and copies nothing.
\<close>

definition cudaMemcpy :: "ptr \<Rightarrow> ptr \<Rightarrow> size_t \<Rightarrow> cudaMemcpyKind \<Rightarrow> machine \<Rightarrow> cudaError \<times> machine" where
  "cudaMemcpy dst src count kind m =
     (case next_fault m of (e, m1) \<Rightarrow>
        if e \<noteq> cudaSuccess then (e, m1)
        else (case kind of
          cudaMemcpyHostToDevice \<Rightarrow>
            (case (host m1 src, dev m1 dst) of
               (Some hs, Some ds) \<Rightarrow>
                 if unat count \<le> length hs \<and> unat count \<le> length ds
                 then (cudaSuccess,
                       m1\<lparr>dev := (dev m1)(dst \<mapsto> take (unat count) hs @ drop (unat count) ds)\<rparr>)
                 else (cudaErrorInvalidValue, m1)
             | _ \<Rightarrow> (cudaErrorInvalidValue, m1))
        | cudaMemcpyDeviceToHost \<Rightarrow>
            (case (dev m1 src, host m1 dst) of
               (Some ds, Some hs) \<Rightarrow>
                 if unat count \<le> length ds \<and> unat count \<le> length hs
                 then (cudaSuccess,
                       m1\<lparr>host := (host m1)(dst \<mapsto> take (unat count) ds @ drop (unat count) hs)\<rparr>)
                 else (cudaErrorInvalidValue, m1)
             | _ \<Rightarrow> (cudaErrorInvalidValue, m1))))"

text \<open>
  \<^verbatim>\<open>cudaMemset(devPtr, value, count)\<close>: the first \<open>count\<close> bytes of the device block
  become the low byte of \<open>value\<close>.
\<close>

definition cudaMemset :: "ptr \<Rightarrow> c_int \<Rightarrow> size_t \<Rightarrow> machine \<Rightarrow> cudaError \<times> machine" where
  "cudaMemset devPtr val count m =
     (case next_fault m of (e, m1) \<Rightarrow>
        if e \<noteq> cudaSuccess then (e, m1)
        else (case dev m1 devPtr of
          Some ds \<Rightarrow>
            if unat count \<le> length ds
            then (cudaSuccess,
                  m1\<lparr>dev := (dev m1)(devPtr \<mapsto> replicate (unat count) (ucast val) @ drop (unat count) ds)\<rparr>)
            else (cudaErrorInvalidValue, m1)
        | None \<Rightarrow> (cudaErrorInvalidValue, m1)))"

text \<open>
  \<^verbatim>\<open>cudaFree(devPtr)\<close>: freeing \<open>NULL\<close> succeeds and does nothing; freeing any other
  address that is not the base of a device block is \<open>cudaErrorInvalidValue\<close>.
\<close>

definition cudaFree :: "ptr \<Rightarrow> machine \<Rightarrow> cudaError \<times> machine" where
  "cudaFree devPtr m =
     (case next_fault m of (e, m1) \<Rightarrow>
        if e \<noteq> cudaSuccess then (e, m1)
        else if devPtr = NULL then (cudaSuccess, m1)
        else (case dev m1 devPtr of
          Some ds \<Rightarrow>
            (cudaSuccess,
             m1\<lparr>dev := (dev m1)(devPtr := None), dev_free := dev_free m1 + length ds\<rparr>)
        | None \<Rightarrow> (cudaErrorInvalidValue, m1)))"

subsection \<open>Programs: a call returns, or the process exits\<close>

datatype 'a outcome = Returns 'a machine | Exits cudaError machine

type_synonym 'a prog = "machine \<Rightarrow> 'a outcome"

definition return_prog :: "'a \<Rightarrow> 'a prog" where
  "return_prog v m = Returns v m"

definition bind_prog :: "'a prog \<Rightarrow> ('a \<Rightarrow> 'b prog) \<Rightarrow> 'b prog" where
  "bind_prog f g m =
     (case f m of
        Returns v m1 \<Rightarrow> g v m1
      | Exits e m1 \<Rightarrow> Exits e m1)"

definition call :: "(machine \<Rightarrow> 'a \<times> machine) \<Rightarrow> 'a prog" where
  "call f m = (case f m of (v, m1) \<Rightarrow> Returns v m1)"

text \<open>The machine a program leaves behind, whether it returned or the process exited.\<close>

fun final :: "'a outcome \<Rightarrow> machine" where
  "final (Returns v m) = m"
| "final (Exits e m) = m"

subsection \<open>What the build fixes: memory.h and types.h\<close>

text \<open>
  The macro \<^verbatim>\<open>cudaSoftCheck\<close> (memory.h) and the sizes of \<^verbatim>\<open>UVW\<close> and \<^verbatim>\<open>FLOAT\<close>
  (types.h, and the \<^verbatim>\<open>SINGLE\<close> switch) are not part of the files at hand, so they are
  parameters of the model. The macro is handed the status of a runtime call; it is used as
  a statement in functions that return a struct and in functions that return nothing, so
  it cannot return from the enclosing function: after a status other than
  \<open>cudaSuccess\<close> it either lets execution continue (having reported the status or not)
  or ends the process. \<open>fatal\<close> says which statuses end the process.
\<close>

record build =
  fatal :: "cudaError \<Rightarrow> bool"
  sizeof_UVW :: size_t
  sizeof_FLOAT :: size_t

definition cudaSoftCheck :: "build \<Rightarrow> cudaError \<Rightarrow> unit prog" where
  "cudaSoftCheck b code m =
     (if code \<noteq> cudaSuccess \<and> fatal b code then Exits code m else Returns () m)"

text \<open>\<^verbatim>\<open>JonesF32\<close> is eight \<^verbatim>\<open>float\<close> fields of four bytes each.\<close>

definition sizeof_JonesF32 :: size_t where
  "sizeof_JonesF32 = 32"

section \<open>The device memory context (memory functions)\<close>

text \<open>
  \<^verbatim>\<open>Addresses\<close>, with the fields \<^verbatim>\<open>init_model\<close> initialises, in its order.
\<close>

record 'f Addresses =
  num_freqs :: c_int
  num_vis :: c_int
  num_tiles :: c_int
  sbf_l :: c_int
  sbf_n :: c_int
  sbf_c :: 'f
  sbf_dx :: 'f
  d_uvws :: ptr
  d_freqs :: ptr
  d_shapelet_basis_values :: ptr
  d_fee_coeffs :: ptr
  num_fee_beam_coeffs :: c_int
  num_unique_fee_tiles :: c_int
  num_unique_fee_freqs :: c_int
  d_beam_jones_map :: ptr
  d_beam_norm_jones :: ptr
  d_vis :: ptr
  host_vis :: ptr

text \<open>
  \<^verbatim>\<open>init_model\<close>. The parameters that share a name with a field of \<^verbatim>\<open>Addresses\<close>
  carry a prime, as do the local pointer variables. An \<^verbatim>\<open>int\<close> is converted to
  \<^verbatim>\<open>size_t\<close> by sign extension (\<open>scast\<close>) before it is multiplied by a \<^verbatim>\<open>sizeof\<close>;
  \<^verbatim>\<open>sbf_l * sbf_n\<close> and \<^verbatim>\<open>num_baselines * num_freqs\<close> are products of two
  \<^verbatim>\<open>int\<close>s, taken modulo \<open>2 ^ 32\<close> (an overflow of such a product is undefined in C; the
  compiled multiplication wraps).
\<close>

definition init_model ::
  "build \<Rightarrow> c_int \<Rightarrow> c_int \<Rightarrow> c_int \<Rightarrow> c_int \<Rightarrow> c_int \<Rightarrow> 'f \<Rightarrow> 'f \<Rightarrow>
   ptr \<Rightarrow> ptr \<Rightarrow> ptr \<Rightarrow> ptr \<Rightarrow> c_int \<Rightarrow> c_int \<Rightarrow> c_int \<Rightarrow> ptr \<Rightarrow> ptr \<Rightarrow> ptr \<Rightarrow>
   'f Addresses prog" where
  "init_model b num_baselines num_freqs' num_tiles' sbf_l' sbf_n' sbf_c' sbf_dx'
      uvws freqs shapelet_basis_values d_fee_coeffs' num_fee_beam_coeffs'
      num_unique_fee_tiles' num_unique_fee_freqs' d_beam_jones_map' d_beam_norm_jones' vis =
     (let size_uvws = scast num_baselines * sizeof_UVW b in
      bind_prog (call (cudaMalloc NULL size_uvws)) (\<lambda>(e, d_uvws').
      bind_prog (cudaSoftCheck b e) (\<lambda>_.
      bind_prog (call (cudaMemcpy d_uvws' uvws size_uvws cudaMemcpyHostToDevice)) (\<lambda>e.
      bind_prog (cudaSoftCheck b e) (\<lambda>_.
      let size_freqs = scast num_freqs' * sizeof_FLOAT b in
      bind_prog (call (cudaMalloc NULL size_freqs)) (\<lambda>(e, d_freqs').
      bind_prog (cudaSoftCheck b e) (\<lambda>_.
      bind_prog (call (cudaMemcpy d_freqs' freqs size_freqs cudaMemcpyHostToDevice)) (\<lambda>e.
      bind_prog (cudaSoftCheck b e) (\<lambda>_.
      let size_sbfs = scast (sbf_l' * sbf_n') * sizeof_FLOAT b in
      bind_prog (call (cudaMalloc NULL size_sbfs)) (\<lambda>(e, d_shapelet_basis_values').
      bind_prog (cudaSoftCheck b e) (\<lambda>_.
      bind_prog (call (cudaMemcpy d_shapelet_basis_values' shapelet_basis_values size_sbfs
                         cudaMemcpyHostToDevice)) (\<lambda>e.
      bind_prog (cudaSoftCheck b e) (\<lambda>_.
      let num_vis' = num_baselines * num_freqs';
          size_vis = scast num_vis' * sizeof_JonesF32 in
      bind_prog (call (cudaMalloc NULL size_vis)) (\<lambda>(e, d_vis').
      bind_prog (cudaSoftCheck b e) (\<lambda>_.
      bind_prog (call (cudaMemcpy d_vis' vis size_vis cudaMemcpyHostToDevice)) (\<lambda>e.
      bind_prog (cudaSoftCheck b e) (\<lambda>_.
      return_prog
        \<lparr>num_freqs = num_freqs',
         num_vis = num_vis',
         num_tiles = num_tiles',
         sbf_l = sbf_l',
         sbf_n = sbf_n',
         sbf_c = sbf_c',
         sbf_dx = sbf_dx',
         d_uvws = d_uvws',
         d_freqs = d_freqs',
         d_shapelet_basis_values = d_shapelet_basis_values',
         d_fee_coeffs = d_fee_coeffs',
         num_fee_beam_coeffs = num_fee_beam_coeffs',
         num_unique_fee_tiles = num_unique_fee_tiles',
         num_unique_fee_freqs = num_unique_fee_freqs',
         d_beam_jones_map = d_beam_jones_map',
         d_beam_norm_jones = d_beam_norm_jones',
         d_vis = d_vis',
         host_vis = vis\<rparr>)))))))))))))))))"

text \<open>
  \<^verbatim>\<open>copy_vis\<close>, \<^verbatim>\<open>clear_vis\<close> and \<^verbatim>\<open>destroy\<close> are handed a pointer to the caller's
  \<^verbatim>\<open>Addresses\<close>. Each function returns the value that struct holds after the call, so
  that what the call does to the context can be stated. \<^verbatim>\<open>clear_vis\<close> drops the status
  of \<^verbatim>\<open>cudaMemset\<close>: it is the one runtime call of the file outside \<^verbatim>\<open>cudaSoftCheck\<close>.
  The literal \<^verbatim>\<open>0.0\<close> is converted to the \<^verbatim>\<open>int\<close> 0 the runtime call takes.
\<close>

definition copy_vis :: "build \<Rightarrow> 'f Addresses \<Rightarrow> 'f Addresses prog" where
  "copy_vis b a =
     bind_prog (call (cudaMemcpy (host_vis a) (d_vis a) (scast (num_vis a) * sizeof_JonesF32)
                        cudaMemcpyDeviceToHost)) (\<lambda>e.
     bind_prog (cudaSoftCheck b e) (\<lambda>_.
     return_prog a))"

definition clear_vis :: "'f Addresses \<Rightarrow> 'f Addresses prog" where
  "clear_vis a =
     bind_prog (call (cudaMemset (d_vis a) 0 (scast (num_vis a) * sizeof_JonesF32))) (\<lambda>_.
     return_prog a)"

definition destroy :: "build \<Rightarrow> 'f Addresses \<Rightarrow> 'f Addresses prog" where
  "destroy b a =
     bind_prog (call (cudaFree (d_uvws a))) (\<lambda>e.
     bind_prog (cudaSoftCheck b e) (\<lambda>_.
     bind_prog (call (cudaFree (d_freqs a))) (\<lambda>e.
     bind_prog (cudaSoftCheck b e) (\<lambda>_.
     bind_prog (call (cudaFree (d_shapelet_basis_values a))) (\<lambda>e.
     bind_prog (cudaSoftCheck b e) (\<lambda>_.
     bind_prog (call (cudaFree (d_vis a))) (\<lambda>e.
     bind_prog (cudaSoftCheck b e) (\<lambda>_.
     return_prog a))))))))"

section \<open>The modelling kernels and the entry point, from the specification\<close>

text \<open>
  model.h declares \<^verbatim>\<open>model_points\<close>, \<^verbatim>\<open>model_gaussians\<close>, \<^verbatim>\<open>model_shapelets\<close> and
  \<^verbatim>\<open>model_timestep\<close>; the file that defines them is not among the files at hand. This
  section models them from the specification (sections 3, 4.3 to 4.7 and 6), and from the
  comment of \<^verbatim>\<open>model_timestep\<close> in model.h for the layout of the two-dimensional
  arrays. Each function is given the contents of all the arrays and returns its status
  with the contents of all the arrays after the call, so that a write to any of them can
  be expressed.

  The element types. The field names of the source (\<^verbatim>\<open>u\<close>, \<^verbatim>\<open>v\<close>, \<^verbatim>\<open>w\<close> of \<^verbatim>\<open>UVW\<close>
  and \<^verbatim>\<open>ShapeletUV\<close> in common.cuh) carry the name of their struct as a prefix here.
\<close>

record 'f UVW =
  uvw_u :: 'f
  uvw_v :: 'f
  uvw_w :: 'f

record 'f LMN =
  lmn_l :: 'f
  lmn_m :: 'f
  lmn_n :: 'f

record 'f GaussianParams =
  gp_maj :: 'f
  gp_min :: 'f
  gp_pa :: 'f

record 'f ShapeletUV =
  suv_u :: 'f
  suv_v :: 'f

record 'f ShapeletCoeff =
  sc_n1 :: nat
  sc_n2 :: nat
  sc_value :: 'f

text \<open>
  The arrays, in the order of the parameters of \<^verbatim>\<open>model_timestep\<close>. The kernels that
  take a context read \<^verbatim>\<open>uvws\<close>, \<^verbatim>\<open>freqs\<close> and the basis table from it and accumulate
  into its visibility buffer; those are the same arrays here.
\<close>

record ('f, 's) sky =
  sky_uvws :: "'f UVW list"
  sky_freqs :: "'f list"
  sky_point_lmns :: "'f LMN list"
  sky_point_fds :: "'f JONES list"
  sky_gaussian_lmns :: "'f LMN list"
  sky_gaussian_fds :: "'f JONES list"
  sky_gaussian_gaussian_params :: "'f GaussianParams list"
  sky_shapelet_lmns :: "'f LMN list"
  sky_shapelet_fds :: "'f JONES list"
  sky_shapelet_gaussian_params :: "'f GaussianParams list"
  sky_shapelet_uvs :: "'f ShapeletUV list"
  sky_shapelet_coeffs :: "'f ShapeletCoeff list"
  sky_num_shapelet_coeffs :: "nat list"
  sky_shapelet_basis_values :: "'f list"
  sky_vis :: "'s JONES list"

text \<open>
  What the specification leaves to the build or to a collaborator: the constants and
  the elementary functions of common.cuh (\<^verbatim>\<open>TAU\<close>, \<^verbatim>\<open>VEL_C\<close>, \<^verbatim>\<open>EXP_CONST\<close>,
  \<^verbatim>\<open>SINCOS\<close>, \<^verbatim>\<open>EXP\<close>), the cast to single precision, the projection of a baseline's
  (u, v) into a component's major/minor/position-angle frame, the look-up in the basis
  table (with its policy outside the valid sample range), and the pair of beam Jones
  matrices resolved and normalised for a cell (\<open>None\<close> when the beam tables are absent).
\<close>

record ('f, 's) numerics =
  TAU :: 'f
  VEL_C :: 'f
  EXP_CONST :: 'f
  SINCOS :: "'f \<Rightarrow> 'f \<times> 'f"
  EXP :: "'f \<Rightarrow> 'f"
  to_single :: "'f \<Rightarrow> 's"
  gaussian_frame :: "'f GaussianParams \<Rightarrow> 'f \<Rightarrow> 'f \<Rightarrow> 'f \<times> 'f"
  basis_value :: "'f list \<Rightarrow> nat \<Rightarrow> nat \<Rightarrow> 'f \<Rightarrow> 'f \<Rightarrow> 'f"
  beam_pair :: "nat \<Rightarrow> nat \<Rightarrow> ('f JONES \<times> 'f JONES) option"

definition zero_jones :: "'f::zero JONES" where
  "zero_jones =
     \<lparr>j00_re = 0, j00_im = 0, j01_re = 0, j01_im = 0,
      j10_re = 0, j10_im = 0, j11_re = 0, j11_im = 0\<rparr>"

text \<open>
  Modelled from the spec: the phase/delay evaluator (4.3), which the missing kernel file
  defines. The phase is
  \<^verbatim>\<open>-2 pi (u l + v m + w (n-1)) frequency / c\<close>, ``then the complex exponential via a
  combined sine/cosine evaluation''.
\<close>

definition phase_term ::
  "('f::{plus,minus,times,uminus,inverse,one}, 's) numerics \<Rightarrow> 'f UVW \<Rightarrow> 'f \<Rightarrow> 'f LMN \<Rightarrow> 'f COMPLEX" where
  "phase_term N uvw freq lmn =
     (let phase = - TAU N * (uvw_u uvw * lmn_l lmn + uvw_v uvw * lmn_m lmn
                             + uvw_w uvw * (lmn_n lmn - 1)) * freq / VEL_C N
      in case SINCOS N phase of (s, c) \<Rightarrow> MAKE_COMPLEX c s)"

text \<open>
  Modelled from the spec: the value one point component adds to the cell of baseline
  \<open>i\<close> and frequency \<open>j\<close> (4.4): ``evaluate phase term, multiply by the component's flux
  Jones at that frequency''. The flux array has frequency as its first axis.
\<close>

definition point_term ::
  "('f::{plus,minus,times,uminus,inverse,one}, 's) numerics \<Rightarrow> ('f, 's) sky \<Rightarrow> nat \<Rightarrow> nat \<Rightarrow> nat \<Rightarrow> 'f JONES" where
  "point_term N A i j c =
     jones_mul_complex (sky_point_fds A ! (j * length (sky_point_lmns A) + c))
       (phase_term N (sky_uvws A ! i) (sky_freqs A ! j) (sky_point_lmns A ! c))"

text \<open>
  Modelled from the spec: the Gaussian envelope (4.5), the exponential of
  \<^verbatim>\<open>-(pi^2/ln2)/4 (major^2 u'^2 + minor^2 v'^2)\<close>, ``constants precomputed'':
  \<^verbatim>\<open>EXP_CONST\<close> of common.cuh is \<^verbatim>\<open>-((pi/2)^2 / ln 2)\<close>.
\<close>

definition envelope ::
  "('f::{plus,times}, 's) numerics \<Rightarrow> 'f GaussianParams \<Rightarrow> 'f \<Rightarrow> 'f \<Rightarrow> 'f" where
  "envelope N gp bu bv =
     (case gaussian_frame N gp bu bv of (u', v') \<Rightarrow>
        EXP N (EXP_CONST N * (gp_maj gp * gp_maj gp * (u' * u') + gp_min gp * gp_min gp * (v' * v'))))"

text \<open>
  Modelled from the spec: the value one Gaussian component adds to a cell (4.5): the
  point computation with ``this real scalar'' multiplied ``into the phase-rotated flux
  Jones before accumulation''.
\<close>

definition gaussian_term ::
  "('f::{plus,minus,times,uminus,inverse,one}, 's) numerics \<Rightarrow> ('f, 's) sky \<Rightarrow> nat \<Rightarrow> nat \<Rightarrow> nat \<Rightarrow> 'f JONES" where
  "gaussian_term N A i j c =
     jones_scale
       (jones_mul_complex (sky_gaussian_fds A ! (j * length (sky_gaussian_lmns A) + c))
          (phase_term N (sky_uvws A ! i) (sky_freqs A ! j) (sky_gaussian_lmns A ! c)))
       (envelope N (sky_gaussian_gaussian_params A ! c)
          (uvw_u (sky_uvws A ! i)) (uvw_v (sky_uvws A ! i)))"

text \<open>
  Modelled from the spec: the coefficients of shapelet component \<open>c\<close> (4.6): ``indexing
  into the flattened coefficient array for component i starts at the running sum of
  coeffs_per_component[0..i)''; and the scalar they give: for each coefficient the basis
  value at the projected position, scaled by the weight, summed.
\<close>

definition component_coeffs :: "('f, 's) sky \<Rightarrow> nat \<Rightarrow> 'f ShapeletCoeff list" where
  "component_coeffs A c =
     take (sky_num_shapelet_coeffs A ! c)
       (drop (sum_list (take c (sky_num_shapelet_coeffs A))) (sky_shapelet_coeffs A))"

definition shapelet_scalar ::
  "('f::{plus,times,zero}, 's) numerics \<Rightarrow> ('f, 's) sky \<Rightarrow> nat \<Rightarrow> nat \<Rightarrow> 'f" where
  "shapelet_scalar N A i c =
     (let suv = sky_shapelet_uvs A ! (i * length (sky_shapelet_lmns A) + c) in
      case gaussian_frame N (sky_shapelet_gaussian_params A ! c) (suv_u suv) (suv_v suv) of
        (u', v') \<Rightarrow>
          foldl (\<lambda>acc co. acc + basis_value N (sky_shapelet_basis_values A) (sc_n1 co) (sc_n2 co) u' v'
                                 * sc_value co)
            0 (component_coeffs A c))"

text \<open>
  Modelled from the spec: the value one shapelet component adds to a cell (4.6): the
  envelope ``computed from the same shape parameters but using the shapelet-specific UV''
  and the scalar of the coefficients, on the phase-rotated flux Jones.
\<close>

definition shapelet_term ::
  "('f::{plus,minus,times,uminus,inverse,zero,one}, 's) numerics \<Rightarrow> ('f, 's) sky \<Rightarrow> nat \<Rightarrow> nat \<Rightarrow> nat \<Rightarrow> 'f JONES" where
  "shapelet_term N A i j c =
     (let suv = sky_shapelet_uvs A ! (i * length (sky_shapelet_lmns A) + c) in
      jones_scale
        (jones_scale
           (jones_mul_complex (sky_shapelet_fds A ! (j * length (sky_shapelet_lmns A) + c))
              (phase_term N (sky_uvws A ! i) (sky_freqs A ! j) (sky_shapelet_lmns A ! c)))
           (envelope N (sky_shapelet_gaussian_params A ! c) (suv_u suv) (suv_v suv)))
        (shapelet_scalar N A i c))"

text \<open>
  Modelled from the spec: what a kernel does to the visibilities (4.4, 4.7, 5). One
  cell per (baseline, frequency), baseline the first axis; for each cell the terms of
  all \<open>count\<close> components are summed into a local value, starting from zero; the beam
  is applied to the local sum once (\<^verbatim>\<open>J_left J J_right^H\<close>, skipped when the beam
  tables are absent); the result is added into the cell with the narrowing addition of
  common.cuh. The kernel ``mutates the device visibility buffer in place; does not clear
  it first''.
\<close>

definition accumulate ::
  "('f::{plus,minus,times,uminus,zero}, 's::plus) numerics \<Rightarrow> (nat \<Rightarrow> nat \<Rightarrow> nat \<Rightarrow> 'f JONES) \<Rightarrow> nat \<Rightarrow>
   ('f, 's) sky \<Rightarrow> 's JONES list" where
  "accumulate N term count A =
     map (\<lambda>k.
            let i = k div length (sky_freqs A);
                j = k mod length (sky_freqs A);
                local = foldl (\<lambda>acc c. jones_add_assign acc (term i j c)) zero_jones [0..<count];
                corrected = (case beam_pair N i j of
                               None \<Rightarrow> local
                             | Some (j1, j2) \<Rightarrow> apply_beam j1 local j2)
            in jones_add_assign_f32_f64 (to_single N) (sky_vis A ! k) corrected)
       [0..<length (sky_vis A)]"

text \<open>
  Modelled from the spec: \<^verbatim>\<open>model_points\<close> (4.4), whose body is in the missing kernel
  file. \<open>launch\<close> is what the device reports for the call: the kernel ``returns
  non-zero/failure status if the underlying device call reports an error; otherwise
  zero/success''. The number of components is the length of the component arrays.
\<close>

definition model_points ::
  "('f::{plus,minus,times,uminus,inverse,zero,one}, 's::plus) numerics \<Rightarrow> cudaError \<Rightarrow> ('f, 's) sky \<Rightarrow>
   c_int \<times> ('f, 's) sky" where
  "model_points N launch A =
     (if launch \<noteq> cudaSuccess then (1, A)
      else (0, A\<lparr>sky_vis := accumulate N (point_term N A) (length (sky_point_lmns A)) A\<rparr>))"

text \<open>
  Modelled from the spec: \<^verbatim>\<open>model_gaussians\<close> (4.5), whose body is in the missing kernel
  file: ``same threading/contract shape as 4.4'', with the Gaussian term.
\<close>

definition model_gaussians ::
  "('f::{plus,minus,times,uminus,inverse,zero,one}, 's::plus) numerics \<Rightarrow> cudaError \<Rightarrow> ('f, 's) sky \<Rightarrow>
   c_int \<times> ('f, 's) sky" where
  "model_gaussians N launch A =
     (if launch \<noteq> cudaSuccess then (1, A)
      else (0, A\<lparr>sky_vis := accumulate N (gaussian_term N A) (length (sky_gaussian_lmns A)) A\<rparr>))"

text \<open>
  Modelled from the spec: \<^verbatim>\<open>model_shapelets\<close> (4.6), whose body is in the missing kernel
  file: ``beam correction and accumulation follow the same pattern as 4.4/4.5'', with the
  shapelet term.
\<close>

definition model_shapelets ::
  "('f::{plus,minus,times,uminus,inverse,zero,one}, 's::plus) numerics \<Rightarrow> cudaError \<Rightarrow> ('f, 's) sky \<Rightarrow>
   c_int \<times> ('f, 's) sky" where
  "model_shapelets N launch A =
     (if launch \<noteq> cudaSuccess then (1, A)
      else (0, A\<lparr>sky_vis := accumulate N (shapelet_term N A) (length (sky_shapelet_lmns A)) A\<rparr>))"

text \<open>
  Modelled from the spec: \<^verbatim>\<open>model_timestep\<close>, the entry point (6), whose body is in the
  missing kernel file: ``invoke point/Gaussian/shapelet kernels in sequence and return a
  combined status''; a failed kernel ends the call with its status (7: failures are
  ``fatal-to-the-call'').
\<close>

definition model_timestep ::
  "('f::{plus,minus,times,uminus,inverse,zero,one}, 's::plus) numerics \<Rightarrow> cudaError \<Rightarrow> cudaError \<Rightarrow> cudaError \<Rightarrow>
   ('f, 's) sky \<Rightarrow> c_int \<times> ('f, 's) sky" where
  "model_timestep N launch1 launch2 launch3 A =
     (case model_points N launch1 A of (status, A1) \<Rightarrow>
        if status \<noteq> 0 then (status, A1)
        else (case model_gaussians N launch2 A1 of (status, A2) \<Rightarrow>
          if status \<noteq> 0 then (status, A2)
          else model_shapelets N launch3 A2))"

section \<open>Reference definitions for the arithmetic\<close>

text \<open>The eight fields of a Jones matrix, in the order of the struct.\<close>

definition jones_fields :: "'f JONES \<Rightarrow> 'f list" where
  "jones_fields a =
     [j00_re a, j00_im a, j01_re a, j01_im a, j10_re a, j10_im a, j11_re a, j11_im a]"

text \<open>
  A Jones matrix as a 2x2 matrix of complex entries: \<open>jones_entry j r c\<close> is the entry
  in row \<open>r\<close> and column \<open>c\<close>, where \<open>False\<close> is index 0 and \<open>True\<close> is index 1.
  \<open>mat2_mul\<close> is the matrix product (the sum over the inner index written out, with the
  complex product and sum of the source), \<open>mat2_herm\<close> the conjugate transpose.
\<close>

definition jones_entry :: "'f JONES \<Rightarrow> bool \<Rightarrow> bool \<Rightarrow> 'f COMPLEX" where
  "jones_entry j r c =
     (if r then (if c then MAKE_COMPLEX (j11_re j) (j11_im j) else MAKE_COMPLEX (j10_re j) (j10_im j))
      else (if c then MAKE_COMPLEX (j01_re j) (j01_im j) else MAKE_COMPLEX (j00_re j) (j00_im j)))"

definition mat2_mul ::
  "(bool \<Rightarrow> bool \<Rightarrow> 'f::{plus,minus,times} COMPLEX) \<Rightarrow> (bool \<Rightarrow> bool \<Rightarrow> 'f COMPLEX) \<Rightarrow> bool \<Rightarrow> bool \<Rightarrow> 'f COMPLEX" where
  "mat2_mul A B r c = complex_add (complex_mul (A r False) (B False c)) (complex_mul (A r True) (B True c))"

definition mat2_herm :: "(bool \<Rightarrow> bool \<Rightarrow> 'f::uminus COMPLEX) \<Rightarrow> bool \<Rightarrow> bool \<Rightarrow> 'f COMPLEX" where
  "mat2_herm A r c = CUCONJ (A c r)"

text \<open>
  Over the real numbers the entries are complex numbers of HOL, and the reference is the
  matrix product and conjugate transpose of complex matrices.
\<close>

definition to_complex :: "real COMPLEX \<Rightarrow> complex" where
  "to_complex a = Complex (cx a) (cy a)"

definition cmat :: "real JONES \<Rightarrow> bool \<Rightarrow> bool \<Rightarrow> complex" where
  "cmat j r c = to_complex (jones_entry j r c)"

definition cmat_mul :: "(bool \<Rightarrow> bool \<Rightarrow> complex) \<Rightarrow> (bool \<Rightarrow> bool \<Rightarrow> complex) \<Rightarrow> bool \<Rightarrow> bool \<Rightarrow> complex" where
  "cmat_mul A B r c = (\<Sum>k\<in>UNIV. A r k * B k c)"

definition cmat_herm :: "(bool \<Rightarrow> bool \<Rightarrow> complex) \<Rightarrow> bool \<Rightarrow> bool \<Rightarrow> complex" where
  "cmat_herm A r c = cnj (A c r)"


section \<open>Notions used to state the properties of the memory functions\<close>

text \<open>
  \<open>ensures f m Q E\<close>: run from \<open>m\<close>, the program \<open>f\<close> returns a value and a machine
  that satisfy \<open>Q\<close>, or the process exits with a status and a machine that satisfy \<open>E\<close>.
  \<open>keeps R f\<close>: the machine \<open>f\<close> leaves behind is always related by \<open>R\<close> to the one it
  started from.
\<close>

definition ensures ::
  "'a prog \<Rightarrow> machine \<Rightarrow> ('a \<Rightarrow> machine \<Rightarrow> bool) \<Rightarrow> (cudaError \<Rightarrow> machine \<Rightarrow> bool) \<Rightarrow> bool" where
  "ensures f m Q E = (case f m of Returns v m' \<Rightarrow> Q v m' | Exits e m' \<Rightarrow> E e m')"

definition keeps :: "(machine \<Rightarrow> machine \<Rightarrow> bool) \<Rightarrow> 'a prog \<Rightarrow> bool" where
  "keeps R f = (\<forall>m. R m (final (f m)))"

text \<open>
  \<open>no_release m m'\<close>: from \<open>m\<close> to \<open>m'\<close> no device block has been released. Every block
  of \<open>m\<close> is still a block of \<open>m'\<close>, and so is every block handed out in between (the
  addresses from \<open>next_ptr m\<close> up to \<open>next_ptr m'\<close>).
\<close>

definition no_release :: "machine \<Rightarrow> machine \<Rightarrow> bool" where
  "no_release m m' =
     (next_ptr m \<le> next_ptr m' \<and>
      (\<forall>q. dev m q \<noteq> None \<or> (next_ptr m \<le> q \<and> q < next_ptr m') \<longrightarrow> dev m' q \<noteq> None))"

text \<open>
  \<open>same_memory m m'\<close>: the two machines agree on everything but the statuses the runtime
  is still going to report.
\<close>

definition same_memory :: "machine \<Rightarrow> machine \<Rightarrow> bool" where
  "same_memory m m' =
     (host m' = host m \<and> dev m' = dev m \<and> dev_free m' = dev_free m \<and> next_ptr m' = next_ptr m)"

text \<open>
  \<open>mirrors h d n\<close>: if the host block \<open>h\<close> and the device block \<open>d\<close> both exist and
  hold \<open>n\<close> bytes or more, their first \<open>n\<close> bytes are the same.
\<close>

definition mirrors :: "byte list option \<Rightarrow> byte list option \<Rightarrow> nat \<Rightarrow> bool" where
  "mirrors h d n =
     (case (h, d) of
        (Some hb, Some db) \<Rightarrow> n \<le> length hb \<and> n \<le> length db \<longrightarrow> take n db = take n hb
      | _ \<Rightarrow> True)"

text \<open>
  A well-formed machine: \<open>NULL\<close> is not the address of a device block, and no device
  block lies at or beyond the next address the runtime hands out.
\<close>

definition wf_machine :: "machine \<Rightarrow> bool" where
  "wf_machine m = (NULL < next_ptr m \<and> dev m NULL = None \<and> (\<forall>p. next_ptr m \<le> p \<longrightarrow> dev m p = None))"

text \<open>
  Reading a \<^verbatim>\<open>JonesF32\<close> out of a block of bytes: element \<open>i\<close> starts at byte
  \<open>32 * i\<close>, each field is four bytes, least significant first, and a \<^verbatim>\<open>float\<close> is
  given by its 32 bits. The bits \<open>0\<close> are the float \<open>+0.0\<close>.
\<close>

definition f32_at :: "byte list \<Rightarrow> nat \<Rightarrow> 32 word" where
  "f32_at bs off =
     ucast (bs ! off) OR push_bit 8 (ucast (bs ! (off + 1)))
       OR push_bit 16 (ucast (bs ! (off + 2))) OR push_bit 24 (ucast (bs ! (off + 3)))"

definition JonesF32_at :: "byte list \<Rightarrow> nat \<Rightarrow> 32 word JONES" where
  "JonesF32_at bs i =
     \<lparr>j00_re = f32_at bs (32 * i), j00_im = f32_at bs (32 * i + 4),
      j01_re = f32_at bs (32 * i + 8), j01_im = f32_at bs (32 * i + 12),
      j10_re = f32_at bs (32 * i + 16), j10_im = f32_at bs (32 * i + 20),
      j11_re = f32_at bs (32 * i + 24), j11_im = f32_at bs (32 * i + 28)\<rparr>"

definition zero_JonesF32 :: "32 word JONES" where
  "zero_JonesF32 =
     \<lparr>j00_re = 0, j00_im = 0, j01_re = 0, j01_im = 0,
      j10_re = 0, j10_im = 0, j11_re = 0, j11_im = 0\<rparr>"

subsection \<open>The operations a caller applies to a context\<close>

text \<open>
  After \<^verbatim>\<open>init_model\<close> a caller applies \<^verbatim>\<open>clear_vis\<close>, \<^verbatim>\<open>copy_vis\<close>, \<^verbatim>\<open>destroy\<close> and
  the modelling kernels to the context, in some order. The kernels are declared in model.h
  and defined elsewhere: \<^verbatim>\<open>model_points\<close> takes the context as \<^verbatim>\<open>const Addresses *\<close>,
  \<^verbatim>\<open>model_gaussians\<close> and \<^verbatim>\<open>model_shapelets\<close> take it by value, and each returns an
  \<^verbatim>\<open>int\<close>. A kernel, with its other arguments supplied, is therefore any program that is
  given the context and returns an \<^verbatim>\<open>int\<close>: it has no way to hand a changed context
  back.
\<close>

datatype 'f operation =
    ClearVis
  | CopyVis
  | Destroy
  | Model "'f Addresses \<Rightarrow> c_int prog"

fun run_op :: "build \<Rightarrow> 'f operation \<Rightarrow> 'f Addresses \<Rightarrow> 'f Addresses prog" where
  "run_op b ClearVis a = clear_vis a"
| "run_op b CopyVis a = copy_vis b a"
| "run_op b Destroy a = destroy b a"
| "run_op b (Model k) a = bind_prog (k a) (\<lambda>_. return_prog a)"

fun run_ops :: "build \<Rightarrow> 'f operation list \<Rightarrow> 'f Addresses \<Rightarrow> 'f Addresses prog" where
  "run_ops b [] a = return_prog a"
| "run_ops b (opn # opns) a = bind_prog (run_op b opn a) (run_ops b opns)"

subsection \<open>A concrete build and machine\<close>

text \<open>
  A double-precision build (\<^verbatim>\<open>FLOAT\<close> of 8 bytes, \<^verbatim>\<open>UVW\<close> of three of them) in which
  \<^verbatim>\<open>cudaSoftCheck\<close> lets execution continue, and one in which it ends the process.
  The machine has one baseline's \<^verbatim>\<open>UVW\<close> at host address 100, one frequency at 200,
  one basis value at 300 and one visibility (32 bytes, numbered 1 to 32) at 400; no
  device block yet, and \<open>free_bytes\<close> bytes of device memory.
\<close>

definition soft_build :: build where
  "soft_build = \<lparr>fatal = (\<lambda>_. False), sizeof_UVW = 24, sizeof_FLOAT = 8\<rparr>"

definition hard_build :: build where
  "hard_build = \<lparr>fatal = (\<lambda>_. True), sizeof_UVW = 24, sizeof_FLOAT = 8\<rparr>"

definition one_vis_bytes :: "byte list" where
  "one_vis_bytes =
     [1, 2, 3, 4, 5, 6, 7, 8, 9, 10, 11, 12, 13, 14, 15, 16,
      17, 18, 19, 20, 21, 22, 23, 24, 25, 26, 27, 28, 29, 30, 31, 32]"

definition small_machine :: "nat \<Rightarrow> machine" where
  "small_machine free_bytes =
     \<lparr>host = [100 \<mapsto> replicate 24 7, 200 \<mapsto> replicate 8 8, 300 \<mapsto> replicate 8 9,
              400 \<mapsto> one_vis_bytes],
      dev = Map.empty,
      dev_free = free_bytes,
      next_ptr = 1,
      junk = (\<lambda>_. 170),
      faults = []\<rparr>"

text \<open>
  The context \<^verbatim>\<open>init_model\<close> returns on that machine when the device has room, and a
  machine that holds its four device blocks (the visibility block filled with the byte 5).
\<close>

definition small_context :: "real Addresses" where
  "small_context =
     \<lparr>num_freqs = 1, num_vis = 1, num_tiles = 1, sbf_l = 1, sbf_n = 1,
      sbf_c = 0, sbf_dx = 0, d_uvws = 1, d_freqs = 2, d_shapelet_basis_values = 3,
      d_fee_coeffs = 0, num_fee_beam_coeffs = 0, num_unique_fee_tiles = 0,
      num_unique_fee_freqs = 0, d_beam_jones_map = 0, d_beam_norm_jones = 0,
      d_vis = 4, host_vis = 400\<rparr>"

definition loaded_machine :: machine where
  "loaded_machine =
     (small_machine 0)
       \<lparr>dev := [1 \<mapsto> replicate 24 7, 2 \<mapsto> replicate 8 8, 3 \<mapsto> replicate 8 9,
                4 \<mapsto> replicate 32 5],
        next_ptr := 5\<rparr>"

text \<open>
  \<open>fresh_since m0 m S\<close>: the machine \<open>m\<close> is well-formed with no failure of the runtime
  pending, the device blocks \<open>m0\<close> had below its next address are untouched, and \<open>S\<close> is
  the set of device addresses handed out since \<open>m0\<close>.
\<close>

definition fresh_since :: "machine \<Rightarrow> machine \<Rightarrow> ptr set \<Rightarrow> bool" where
  "fresh_since m0 m S =
     (wf_machine m \<and> faults m = [] \<and> next_ptr m0 \<le> next_ptr m \<and>
      (\<forall>p. p < next_ptr m0 \<longrightarrow> dev m p = dev m0 p) \<and>
      S = {p. next_ptr m0 \<le> p \<and> p < next_ptr m})"

section \<open>Properties of the arithmetic\<close>

lemma to_complex_add: "to_complex (complex_add a b) = to_complex a + to_complex b"
  by (simp add: to_complex_def complex_add_def complex_eq_iff)

lemma to_complex_mul: "to_complex (complex_mul a b) = to_complex a * to_complex b"
  by (simp add: to_complex_def complex_mul_def complex_eq_iff)

lemma to_complex_conj: "to_complex (CUCONJ a) = cnj (to_complex a)"
  by (simp add: to_complex_def CUCONJ_def complex_eq_iff)

lemma apply_beam_entries:
  "jones_entry (apply_beam j1 j j2) =
     mat2_mul (mat2_mul (jones_entry j1) (jones_entry j)) (mat2_herm (jones_entry j2))"
  by (intro ext) (simp add: apply_beam_def jones_entry_def mat2_mul_def mat2_herm_def
        jones_as_c_def c_as_jones_def Let_def)

lemma cmat_mat2_mul:
  "(\<lambda>r c. to_complex (mat2_mul A B r c)) =
     cmat_mul (\<lambda>r c. to_complex (A r c)) (\<lambda>r c. to_complex (B r c))"
  by (intro ext) (simp add: mat2_mul_def cmat_mul_def UNIV_bool to_complex_add to_complex_mul add.commute)

lemma cmat_mat2_herm:
  "(\<lambda>r c. to_complex (mat2_herm A r c)) = cmat_herm (\<lambda>r c. to_complex (A r c))"
  by (intro ext) (simp add: mat2_herm_def cmat_herm_def to_complex_conj)

lemma cmat_alt: "cmat j = (\<lambda>r c. to_complex (jones_entry j r c))"
  by (intro ext) (simp add: cmat_def)

text \<open>
  C2: \<^verbatim>\<open>apply_beam(j1, j, j2)\<close> replaces \<open>j\<close> with the matrix product
  \<open>J1 * J * J2\<^sup>H\<close>. First conjunct: over any scalar type (machine floats included)
  every entry of the result is the entry of \<open>(J1 * J) * J2\<^sup>H\<close>, the products taken with
  the complex sum and product of the source in the order given. Second conjunct: over the
  real numbers the result is the product of the three complex matrices.
\<close>

theorem apply_beam_sandwich:
  "jones_entry (apply_beam j1 j j2) =
     mat2_mul (mat2_mul (jones_entry j1) (jones_entry j)) (mat2_herm (jones_entry j2))
   \<and> cmat (apply_beam r1 r r2) = cmat_mul (cmat_mul (cmat r1) (cmat r)) (cmat_herm (cmat r2))"
proof
  show "jones_entry (apply_beam j1 j j2) =
     mat2_mul (mat2_mul (jones_entry j1) (jones_entry j)) (mat2_herm (jones_entry j2))"
    by (rule apply_beam_entries)
  have "cmat (apply_beam r1 r r2) =
      (\<lambda>a c. to_complex (mat2_mul (mat2_mul (jones_entry r1) (jones_entry r)) (mat2_herm (jones_entry r2)) a c))"
    by (simp add: cmat_alt apply_beam_entries)
  also have "\<dots> = cmat_mul (\<lambda>a c. to_complex (mat2_mul (jones_entry r1) (jones_entry r) a c))
                     (\<lambda>a c. to_complex (mat2_herm (jones_entry r2) a c))"
    by (rule cmat_mat2_mul)
  also have "\<dots> = cmat_mul (cmat_mul (cmat r1) (cmat r)) (cmat_herm (cmat r2))"
    by (simp add: cmat_mat2_mul cmat_mat2_herm cmat_alt)
  finally show "cmat (apply_beam r1 r r2) = cmat_mul (cmat_mul (cmat r1) (cmat r)) (cmat_herm (cmat r2))" .
qed

text \<open>
  C10: \<^verbatim>\<open>a *= b\<close> leaves in \<open>a\<close> the value \<^verbatim>\<open>a * b\<close> has before the assignment.
\<close>

theorem complex_mul_assign_agrees: "complex_mul_assign a b = complex_mul a b"
  by (simp add: complex_mul_assign_def complex_mul_def)

text \<open>
  C6: accumulating a double-precision Jones matrix into a single-precision one narrows each
  of the eight double fields on its own and adds it to the single-precision field of the
  same name, with the single-precision addition; the function has no other conversion
  between the two precisions at hand (its only way from \<open>'d\<close> to \<open>'s\<close> is \<open>narrow\<close>,
  and it has none from \<open>'s\<close> to \<open>'d\<close>).
\<close>

theorem jones_add_assign_f32_f64_fields:
  "jones_fields (jones_add_assign_f32_f64 narrow a b) =
     map2 (\<lambda>s d. s + narrow d) (jones_fields a) (jones_fields b)"
  by (simp add: jones_add_assign_f32_f64_def jones_fields_def)


section \<open>Reasoning about programs\<close>

lemma ensures_return: "Q v m \<Longrightarrow> ensures (return_prog v) m Q E"
  by (simp add: ensures_def return_prog_def)

lemma ensures_bind_call:
  "(\<And>v m'. f m = (v, m') \<Longrightarrow> ensures (g v) m' Q E) \<Longrightarrow> ensures (bind_prog (call f) g) m Q E"
  by (cases "f m") (simp add: ensures_def bind_prog_def call_def)

lemma ensures_bind_call2:
  "(\<And>e p m'. f m = ((e, p), m') \<Longrightarrow> ensures (g e p) m' Q E)
     \<Longrightarrow> ensures (bind_prog (call f) (case_prod g)) m Q E"
  by (rule ensures_bind_call) (auto split: prod.splits)

lemma ensures_bind_check:
  "ensures (g ()) m Q E \<Longrightarrow> (fatal b e \<Longrightarrow> e \<noteq> cudaSuccess \<Longrightarrow> E e m)
     \<Longrightarrow> ensures (bind_prog (cudaSoftCheck b e) g) m Q E"
  by (auto simp: ensures_def bind_prog_def cudaSoftCheck_def)

lemmas vcg = ensures_bind_call2 ensures_bind_call ensures_bind_check ensures_return

lemma ensures_final: "ensures f m (\<lambda>_. P) (\<lambda>_. P) = P (final (f m))"
  by (cases "f m") (simp_all add: ensures_def)

lemma keeps_bind:
  assumes "\<And>x y z. R x y \<Longrightarrow> R y z \<Longrightarrow> R x z" and "keeps R f" and "\<And>v. keeps R (g v)"
  shows "keeps R (bind_prog f g)"
  unfolding keeps_def
proof
  fix m
  from assms(2) have first: "R m (final (f m))" by (simp add: keeps_def)
  show "R m (final (bind_prog f g m))"
  proof (cases "f m")
    case (Returns v m1)
    from assms(3)[of v] have "R m1 (final (g v m1))" by (simp add: keeps_def)
    with first Returns have "R m (final (g v m1))" using assms(1)[of m m1] by simp
    with Returns show ?thesis by (simp add: bind_prog_def)
  next
    case (Exits e m1)
    with first show ?thesis by (simp add: bind_prog_def)
  qed
qed

lemma keeps_case_prod:
  assumes "\<And>x y. keeps R (g x y)"
  shows "keeps R (case_prod g v)"
proof (cases v)
  case (Pair x y)
  with assms[of x y] show ?thesis by simp
qed

lemma keeps_call: "(\<And>m v m'. f m = (v, m') \<Longrightarrow> R m m') \<Longrightarrow> keeps R (call f)"
  unfolding keeps_def call_def
proof
  fix m assume r: "\<And>m v m'. f m = (v, m') \<Longrightarrow> R m m'"
  obtain v m' where "f m = (v, m')" by (cases "f m")
  with r[OF this] show "R m (final (case f m of (v, x) \<Rightarrow> Returns v x))" by simp
qed

lemma keeps_check: "(\<And>m. R m m) \<Longrightarrow> keeps R (cudaSoftCheck b e)"
  by (simp add: keeps_def cudaSoftCheck_def)

lemma keeps_return: "(\<And>m. R m m) \<Longrightarrow> keeps R (return_prog v)"
  by (simp add: keeps_def return_prog_def)

lemmas keeps_intros = keeps_bind keeps_case_prod keeps_call keeps_check keeps_return

section \<open>Facts about the runtime calls\<close>

lemma next_fault_cases:
  obtains "faults m = []" "next_fault m = (cudaSuccess, m)"
  | e es where "faults m = e # es" "next_fault m = (e, m\<lparr>faults := es\<rparr>)"
  by (cases "faults m") (auto simp: next_fault_def)

lemma no_release_refl: "no_release m m"
  by (auto simp: no_release_def)

lemma no_release_trans: "no_release a b \<Longrightarrow> no_release b c \<Longrightarrow> no_release a c"
  unfolding no_release_def by (metis le_trans not_le)

lemma cudaMalloc_no_release: "cudaMalloc p s m = (v, m') \<Longrightarrow> no_release m m'"
  by (rule next_fault_cases[of m]) (auto simp: cudaMalloc_def no_release_def split: if_splits)

lemma cudaMemcpy_no_release: "cudaMemcpy d s n k m = (e, m') \<Longrightarrow> no_release m m'"
  by (rule next_fault_cases[of m])
     (auto simp: cudaMemcpy_def no_release_def split: if_splits cudaMemcpyKind.splits option.splits)

lemma cudaMalloc_live:
  "cudaMalloc NULL s m = ((e, q), m') \<Longrightarrow> q = NULL \<or> dev m' q \<noteq> None"
  by (rule next_fault_cases[of m]) (auto simp: cudaMalloc_def split: if_splits)

lemma no_release_live: "no_release m m' \<Longrightarrow> dev m q \<noteq> None \<Longrightarrow> dev m' q \<noteq> None"
  by (simp add: no_release_def)

section \<open>Context creation\<close>

lemma keeps_init_model:
  assumes "\<And>m. R m m" and "\<And>x y z. R x y \<Longrightarrow> R y z \<Longrightarrow> R x z"
    and "\<And>p s m v m'. cudaMalloc p s m = (v, m') \<Longrightarrow> R m m'"
    and "\<And>d s n m e m'. cudaMemcpy d s n cudaMemcpyHostToDevice m = (e, m') \<Longrightarrow> R m m'"
  shows "keeps R (init_model b nb nf nt sl sn sc sdx uvws freqs sbv fee nfc nut nuf jmap bnorm vis)"
  unfolding init_model_def Let_def
  by (intro keeps_intros; (erule assms(2), assumption | rule assms(1) | erule assms(3) | erule assms(4)))

lemma init_model_no_release:
  "no_release m (final (init_model b nb nf nt sl sn sc sdx uvws freqs sbv fee nfc nut nuf jmap bnorm vis m))"
proof -
  have "keeps no_release (init_model b nb nf nt sl sn sc sdx uvws freqs sbv fee nfc nut nuf jmap bnorm vis)"
  proof (rule keeps_init_model)
    show "\<And>m. no_release m m" by (rule no_release_refl)
    show "\<And>x y z. no_release x y \<Longrightarrow> no_release y z \<Longrightarrow> no_release x z" by (rule no_release_trans)
    show "\<And>p s m v m'. cudaMalloc p s m = (v, m') \<Longrightarrow> no_release m m'"
      by (rule cudaMalloc_no_release)
    show "\<And>d s n m e m'. cudaMemcpy d s n cudaMemcpyHostToDevice m = (e, m') \<Longrightarrow> no_release m m'"
      by (rule cudaMemcpy_no_release)
  qed
  then show ?thesis by (simp add: keeps_def)
qed

lemma cudaMalloc_live_set:
  assumes "\<forall>q \<in> S. q = NULL \<or> dev m q \<noteq> None" and "cudaMalloc NULL s m = ((e, p), m')"
  shows "\<forall>q \<in> insert p S. q = NULL \<or> dev m' q \<noteq> None"
  using assms cudaMalloc_live[OF assms(2)] no_release_live[OF cudaMalloc_no_release[OF assms(2)]]
  by auto

lemma cudaMemcpy_live_set:
  assumes "\<forall>q \<in> S. q = NULL \<or> dev m q \<noteq> None" and "cudaMemcpy d s n k m = (e, m')"
  shows "\<forall>q \<in> S. q = NULL \<or> dev m' q \<noteq> None"
  using assms no_release_live[OF cudaMemcpy_no_release[OF assms(2)]]
  by auto

lemma init_model_returns_soft:
  assumes "\<And>e. \<not> fatal b e"
  shows "ensures (init_model b nb nf nt sl sn sc sdx uvws freqs sbv fee nfc nut nuf jmap bnorm vis) m
           (\<lambda>a m'. \<forall>q \<in> {d_uvws a, d_freqs a, d_shapelet_basis_values a, d_vis a}.
                      q = NULL \<or> dev m' q \<noteq> None)
           (\<lambda>_ _. False)"
  unfolding init_model_def Let_def
  apply (rule vcg)+
          apply (simp_all only: assms Addresses.simps)
  subgoal premises prems for e1 q1 m1 e2 m2 e3 q2 m3 e4 m4 e5 q3 m5 e6 m6 e7 q4 m7 e8 m8
  proof -
    have "\<forall>q \<in> {}. q = NULL \<or> dev m q \<noteq> None" by simp
    from this prems(1) have "\<forall>q \<in> {q1}. q = NULL \<or> dev m1 q \<noteq> None"
      by (rule cudaMalloc_live_set)
    from this prems(2) have "\<forall>q \<in> {q1}. q = NULL \<or> dev m2 q \<noteq> None"
      by (rule cudaMemcpy_live_set)
    from this prems(3) have "\<forall>q \<in> {q2, q1}. q = NULL \<or> dev m3 q \<noteq> None"
      by (rule cudaMalloc_live_set)
    from this prems(4) have "\<forall>q \<in> {q2, q1}. q = NULL \<or> dev m4 q \<noteq> None"
      by (rule cudaMemcpy_live_set)
    from this prems(5) have "\<forall>q \<in> {q3, q2, q1}. q = NULL \<or> dev m5 q \<noteq> None"
      by (rule cudaMalloc_live_set)
    from this prems(6) have "\<forall>q \<in> {q3, q2, q1}. q = NULL \<or> dev m6 q \<noteq> None"
      by (rule cudaMemcpy_live_set)
    from this prems(7) have "\<forall>q \<in> {q4, q3, q2, q1}. q = NULL \<or> dev m7 q \<noteq> None"
      by (rule cudaMalloc_live_set)
    from this prems(8) have "\<forall>q \<in> {q4, q3, q2, q1}. q = NULL \<or> dev m8 q \<noteq> None"
      by (rule cudaMemcpy_live_set)
    then show ?thesis by simp
  qed
  done


text \<open>
  C1 (as amended): \<^verbatim>\<open>init_model\<close> has no release path. Whatever fails, no device block
  that existed before the call or was handed out during it has been released when the
  call ends; and when \<^verbatim>\<open>cudaSoftCheck\<close> lets execution continue, the call returns a
  context after any failure, in which each of the four device pointers is \<open>NULL\<close> or a
  block that is still allocated.
\<close>

theorem init_model_keeps_buffers_on_failure:
  "no_release m
     (final (init_model b nb nf nt sl sn sc sdx uvws freqs sbv fee nfc nut nuf jmap bnorm vis m))
   \<and> ((\<forall>e. \<not> fatal b e) \<longrightarrow>
        (\<exists>a m'. init_model b nb nf nt sl sn sc sdx uvws freqs sbv fee nfc nut nuf jmap bnorm vis m
                   = Returns a m'
             \<and> (\<forall>q \<in> {d_uvws a, d_freqs a, d_shapelet_basis_values a, d_vis a}.
                   q = NULL \<or> dev m' q \<noteq> None)))"
proof (intro conjI impI)
  show "no_release m
     (final (init_model b nb nf nt sl sn sc sdx uvws freqs sbv fee nfc nut nuf jmap bnorm vis m))"
    by (rule init_model_no_release)
next
  assume soft: "\<forall>e. \<not> fatal b e"
  let ?run = "init_model b nb nf nt sl sn sc sdx uvws freqs sbv fee nfc nut nuf jmap bnorm vis m"
  from soft have "ensures (init_model b nb nf nt sl sn sc sdx uvws freqs sbv fee nfc nut nuf jmap bnorm vis) m
           (\<lambda>a m'. \<forall>q \<in> {d_uvws a, d_freqs a, d_shapelet_basis_values a, d_vis a}.
                      q = NULL \<or> dev m' q \<noteq> None)
           (\<lambda>_ _. False)"
    by (intro init_model_returns_soft) simp
  then show "\<exists>a m'. ?run = Returns a m'
             \<and> (\<forall>q \<in> {d_uvws a, d_freqs a, d_shapelet_basis_values a, d_vis a}.
                   q = NULL \<or> dev m' q \<noteq> None)"
    by (cases ?run) (simp_all add: ensures_def)
qed

lemmas run_simps =
  init_model_def copy_vis_def clear_vis_def destroy_def bind_prog_def call_def return_prog_def
  cudaSoftCheck_def cudaMalloc_def cudaMemcpy_def cudaMemset_def cudaFree_def next_fault_def
  sizeof_JonesF32_def NULL_def Let_def

theorem init_model_keeps_buffers_on_failure_witness:
  "no_release (small_machine 30)
     (final (init_model soft_build 1 1 1 1 1 (0::real) 0 100 200 300 0 0 0 0 0 0 400 (small_machine 30)))
   \<and> (\<forall>e. \<not> fatal soft_build e)
   \<and> (\<exists>a m'. init_model soft_build 1 1 1 1 1 (0::real) 0 100 200 300 0 0 0 0 0 0 400 (small_machine 30)
                = Returns a m'
          \<and> (\<forall>q \<in> {d_uvws a, d_freqs a, d_shapelet_basis_values a, d_vis a}.
                q = NULL \<or> dev m' q \<noteq> None))"
  using init_model_keeps_buffers_on_failure
    [of "small_machine 30" soft_build 1 1 1 1 1 "0::real" 0 100 200 300 0 0 0 0 0 0 400]
  by (simp add: soft_build_def)

text \<open>
  C1 as stated fails. With 30 bytes of device memory the 24 bytes of the
  \<^verbatim>\<open>UVW\<close> buffer are allocated (device address 1) and the three later allocations
  fail. If \<^verbatim>\<open>cudaSoftCheck\<close> lets execution continue, \<^verbatim>\<open>init_model\<close> returns a context
  (no error reaches the caller) whose \<^verbatim>\<open>d_freqs\<close> is \<open>NULL\<close>, with the \<^verbatim>\<open>UVW\<close> buffer
  still allocated. If \<^verbatim>\<open>cudaSoftCheck\<close> ends the process, it ends with the \<^verbatim>\<open>UVW\<close>
  buffer still allocated.
\<close>

theorem init_model_partial_failure_counterexample:
  "(case init_model soft_build 1 1 1 1 1 (0::real) 0 100 200 300 0 0 0 0 0 0 400 (small_machine 30) of
      Returns a m' \<Rightarrow> d_uvws a = 1 \<and> dev m' 1 \<noteq> None \<and> d_freqs a = NULL
    | Exits e m' \<Rightarrow> False)
   \<and> (case init_model hard_build 1 1 1 1 1 (0::real) 0 100 200 300 0 0 0 0 0 0 400 (small_machine 30) of
      Returns a m' \<Rightarrow> False
    | Exits e m' \<Rightarrow> e = cudaErrorMemoryAllocation \<and> dev m' 1 \<noteq> None)"
  by (simp add: run_simps soft_build_def hard_build_def small_machine_def)

section \<open>Creation followed by read-back\<close>

lemma cudaMalloc_host:
  "cudaMalloc p s m = (v, m') \<Longrightarrow> host m' = host m \<and> (faults m = [] \<longrightarrow> faults m' = [])"
  by (rule next_fault_cases[of m]) (auto simp: cudaMalloc_def split: if_splits)

lemma cudaMemcpy_h2d_host:
  "cudaMemcpy d s n cudaMemcpyHostToDevice m = (e, m') \<Longrightarrow>
     host m' = host m \<and>
     (faults m = [] \<longrightarrow> faults m' = [] \<and> mirrors (host m' s) (dev m' d) (unat n))"
  by (rule next_fault_cases[of m])
     (auto simp: cudaMemcpy_def mirrors_def split: if_splits option.splits)

lemma cudaMemcpy_d2h_dev:
  "cudaMemcpy h d n cudaMemcpyDeviceToHost m = (e, m') \<Longrightarrow>
     dev m' = dev m \<and> dev_free m' = dev_free m \<and> next_ptr m' = next_ptr m"
  by (rule next_fault_cases[of m])
     (auto simp: cudaMemcpy_def split: if_splits option.splits)

lemma cudaMemcpy_d2h_mirrors:
  assumes "mirrors (host m h) (dev m d) (unat n)"
    and "cudaMemcpy h d n cudaMemcpyDeviceToHost m = (e, m')"
  shows "host m' = host m"
proof (rule next_fault_cases[of m])
  assume "faults m = []" and nf: "next_fault m = (cudaSuccess, m)"
  show ?thesis
  proof (cases "e = cudaSuccess")
    case True
    with assms(2) nf obtain ds hs where blocks: "dev m d = Some ds" "host m h = Some hs"
      "unat n \<le> length ds" "unat n \<le> length hs"
      and m': "host m' = (host m)(h \<mapsto> take (unat n) ds @ drop (unat n) hs)"
      by (auto simp: cudaMemcpy_def split: if_splits option.splits)
    from assms(1) blocks have "take (unat n) ds = take (unat n) hs"
      by (simp add: mirrors_def)
    with m' blocks show ?thesis by (simp add: fun_upd_idem)
  next
    case False
    with assms(2) nf show ?thesis
      by (auto simp: cudaMemcpy_def split: if_splits option.splits)
  qed
next
  fix e' es assume "faults m = e' # es" and nf: "next_fault m = (e', m\<lparr>faults := es\<rparr>)"
  show ?thesis
  proof (cases "e' = cudaSuccess")
    case True
    show ?thesis
    proof (cases "e = cudaSuccess")
      case True
      with assms(2) nf \<open>e' = cudaSuccess\<close> obtain ds hs where blocks: "dev m d = Some ds" "host m h = Some hs"
        "unat n \<le> length ds" "unat n \<le> length hs"
        and m': "host m' = (host m)(h \<mapsto> take (unat n) ds @ drop (unat n) hs)"
        by (auto simp: cudaMemcpy_def split: if_splits option.splits)
      from assms(1) blocks have "take (unat n) ds = take (unat n) hs"
        by (simp add: mirrors_def)
      with m' blocks show ?thesis by (simp add: fun_upd_idem)
    next
      case False
      with assms(2) nf \<open>e' = cudaSuccess\<close> show ?thesis
        by (auto simp: cudaMemcpy_def split: if_splits option.splits)
    qed
  next
    case False
    with assms(2) nf show ?thesis by (auto simp: cudaMemcpy_def)
  qed
qed

lemma init_model_mirrors:
  assumes "faults m = []"
  shows "ensures (init_model b nb nf nt sl sn sc sdx uvws freqs sbv fee nfc nut nuf jmap bnorm vis) m
           (\<lambda>a m1. host m1 = host m \<and> host_vis a = vis \<and>
                    mirrors (host m1 vis) (dev m1 (d_vis a)) (unat (scast (num_vis a) * sizeof_JonesF32)))
           (\<lambda>_ m1. host m1 = host m)"
  unfolding init_model_def Let_def
  apply (rule vcg)+
  using assms
          apply (auto dest!: cudaMalloc_host cudaMemcpy_h2d_host)
  done

lemma copy_vis_mirrors:
  assumes "mirrors (host m (host_vis a)) (dev m (d_vis a)) (unat (scast (num_vis a) * sizeof_JonesF32))"
  shows "host (final (copy_vis b a m)) = host m"
proof -
  have "ensures (copy_vis b a) m (\<lambda>_ m'. host m' = host m) (\<lambda>_ m'. host m' = host m)"
    unfolding copy_vis_def
    by (rule vcg)+ (auto dest: cudaMemcpy_d2h_mirrors[OF assms])
  then show ?thesis by (simp add: ensures_final)
qed

text \<open>
  C3: when the runtime reports no failure of its own, creating a context and reading the
  visibilities back at once leaves the host memory, and so the host visibility buffer,
  as it was. (A copy or allocation that fails because of its arguments is covered: then
  nothing is copied in either direction.)
\<close>

theorem create_then_read_back_roundtrip:
  assumes "faults m = []"
  shows "host (final (bind_prog
            (init_model b nb nf nt sl sn sc sdx uvws freqs sbv fee nfc nut nuf jmap bnorm vis)
            (copy_vis b) m)) = host m"
proof -
  let ?init = "init_model b nb nf nt sl sn sc sdx uvws freqs sbv fee nfc nut nuf jmap bnorm vis"
  have "ensures ?init m
          (\<lambda>a m1. host m1 = host m \<and> host_vis a = vis \<and>
                   mirrors (host m1 vis) (dev m1 (d_vis a)) (unat (scast (num_vis a) * sizeof_JonesF32)))
          (\<lambda>_ m1. host m1 = host m)"
    using assms by (rule init_model_mirrors)
  then show ?thesis
  proof (cases "?init m")
    case (Returns a m1)
    assume "ensures ?init m
          (\<lambda>a m1. host m1 = host m \<and> host_vis a = vis \<and>
                   mirrors (host m1 vis) (dev m1 (d_vis a)) (unat (scast (num_vis a) * sizeof_JonesF32)))
          (\<lambda>_ m1. host m1 = host m)"
    with Returns have h: "host m1 = host m" and v: "host_vis a = vis"
      and mir: "mirrors (host m1 vis) (dev m1 (d_vis a)) (unat (scast (num_vis a) * sizeof_JonesF32))"
      by (auto simp: ensures_def)
    from mir v have "host (final (copy_vis b a m1)) = host m1"
      by (intro copy_vis_mirrors) simp
    with Returns h show ?thesis by (simp add: bind_prog_def)
  next
    case (Exits e m1)
    assume "ensures ?init m
          (\<lambda>a m1. host m1 = host m \<and> host_vis a = vis \<and>
                   mirrors (host m1 vis) (dev m1 (d_vis a)) (unat (scast (num_vis a) * sizeof_JonesF32)))
          (\<lambda>_ m1. host m1 = host m)"
    with Exits show ?thesis by (simp add: ensures_def bind_prog_def)
  qed
qed


theorem create_then_read_back_roundtrip_witness:
  "faults (small_machine 1000) = []
   \<and> host (final (bind_prog
          (init_model soft_build 1 1 1 1 1 (0::real) 0 100 200 300 0 0 0 0 0 0 400)
          (copy_vis soft_build) (small_machine 1000))) = host (small_machine 1000)
   \<and> dev (final (bind_prog
          (init_model soft_build 1 1 1 1 1 (0::real) 0 100 200 300 0 0 0 0 0 0 400)
          (copy_vis soft_build) (small_machine 1000))) 4 = Some one_vis_bytes"
proof (intro conjI)
  show f: "faults (small_machine 1000) = []" by (simp add: small_machine_def)
  from create_then_read_back_roundtrip
    [OF f, of soft_build 1 1 1 1 1 "0::real" 0 100 200 300 0 0 0 0 0 0 400]
  show "host (final (bind_prog
          (init_model soft_build 1 1 1 1 1 (0::real) 0 100 200 300 0 0 0 0 0 0 400)
          (copy_vis soft_build) (small_machine 1000))) = host (small_machine 1000)" .
  show "dev (final (bind_prog
          (init_model soft_build 1 1 1 1 1 (0::real) 0 100 200 300 0 0 0 0 0 0 400)
          (copy_vis soft_build) (small_machine 1000))) 4 = Some one_vis_bytes"
    by (simp add: run_simps soft_build_def small_machine_def one_vis_bytes_def)
qed

section \<open>Read-back\<close>

lemma copy_vis_cases:
  obtains e m1 where
    "cudaMemcpy (host_vis a) (d_vis a) (scast (num_vis a) * sizeof_JonesF32)
       cudaMemcpyDeviceToHost m = (e, m1)"
    "copy_vis b a m = (if e \<noteq> cudaSuccess \<and> fatal b e then Exits e m1 else Returns a m1)"
proof -
  obtain e m1 where c: "cudaMemcpy (host_vis a) (d_vis a) (scast (num_vis a) * sizeof_JonesF32)
       cudaMemcpyDeviceToHost m = (e, m1)"
    by (cases "cudaMemcpy (host_vis a) (d_vis a) (scast (num_vis a) * sizeof_JonesF32)
       cudaMemcpyDeviceToHost m")
  then have "copy_vis b a m = (if e \<noteq> cudaSuccess \<and> fatal b e then Exits e m1 else Returns a m1)"
    by (simp add: copy_vis_def bind_prog_def call_def cudaSoftCheck_def return_prog_def)
  with c show ?thesis by (rule that)
qed

lemma cudaMemcpy_d2h_establishes:
  assumes "fst (next_fault m) = cudaSuccess"
    and "cudaMemcpy h d n cudaMemcpyDeviceToHost m = (e, m1)"
  shows "mirrors (host m1 h) (dev m1 d) (unat n)"
  using assms
  by (cases "next_fault m")
     (auto simp: cudaMemcpy_def mirrors_def next_fault_def split: if_splits option.splits list.splits)

text \<open>
  C8: \<^verbatim>\<open>copy_vis\<close> never changes device memory, whether called once or twice; and when
  the runtime does not fail the first read-back on its own, a second read-back leaves the
  host memory as the first one left it.
\<close>

theorem copy_vis_twice:
  "dev (final (copy_vis b a m)) = dev m
   \<and> dev (final (bind_prog (copy_vis b a) (copy_vis b) m)) = dev m
   \<and> (fst (next_fault m) = cudaSuccess \<longrightarrow>
        host (final (bind_prog (copy_vis b a) (copy_vis b) m)) = host (final (copy_vis b a m)))"
proof -
  obtain e m1 where c1: "cudaMemcpy (host_vis a) (d_vis a) (scast (num_vis a) * sizeof_JonesF32)
       cudaMemcpyDeviceToHost m = (e, m1)"
    and r1: "copy_vis b a m = (if e \<noteq> cudaSuccess \<and> fatal b e then Exits e m1 else Returns a m1)"
    by (rule copy_vis_cases)
  obtain e2 m2 where c2: "cudaMemcpy (host_vis a) (d_vis a) (scast (num_vis a) * sizeof_JonesF32)
       cudaMemcpyDeviceToHost m1 = (e2, m2)"
    and r2: "copy_vis b a m1 = (if e2 \<noteq> cudaSuccess \<and> fatal b e2 then Exits e2 m2 else Returns a m2)"
    by (rule copy_vis_cases)
  from c1 have d1: "dev m1 = dev m" by (simp add: cudaMemcpy_d2h_dev)
  from c2 have d2: "dev m2 = dev m1" by (simp add: cudaMemcpy_d2h_dev)
  have f1: "final (copy_vis b a m) = m1" by (simp add: r1)
  have f2: "final (copy_vis b a m1) = m2" by (simp add: r2)
  have both: "final (bind_prog (copy_vis b a) (copy_vis b) m) = m1
            \<or> final (bind_prog (copy_vis b a) (copy_vis b) m) = m2"
    using f2 by (simp add: bind_prog_def r1)
  have h2: "host m2 = host m1" if "fst (next_fault m) = cudaSuccess"
  proof -
    from that c1 have "mirrors (host m1 (host_vis a)) (dev m1 (d_vis a))
        (unat (scast (num_vis a) * sizeof_JonesF32))"
      by (rule cudaMemcpy_d2h_establishes)
    from this c2 show ?thesis by (rule cudaMemcpy_d2h_mirrors)
  qed
  from both d1 d2 h2 f1 show ?thesis by auto
qed

theorem copy_vis_twice_witness:
  "fst (next_fault loaded_machine) = cudaSuccess
   \<and> host (final (bind_prog (copy_vis soft_build small_context) (copy_vis soft_build)
               loaded_machine)) 400 = Some (replicate 32 5)"
proof -
  have ok: "fst (next_fault loaded_machine) = cudaSuccess"
    by (simp add: next_fault_def loaded_machine_def small_machine_def)
  have once: "host (final (copy_vis soft_build small_context loaded_machine)) 400
      = Some (replicate 32 5)"
    by (simp add: run_simps soft_build_def small_machine_def loaded_machine_def small_context_def
          one_vis_bytes_def)
  from copy_vis_twice[of soft_build small_context loaded_machine] once ok show ?thesis by simp
qed

section \<open>Clearing the visibilities\<close>

lemma sint_nonneg_scast:
  fixes w :: "32 word"
  assumes "0 \<le> sint w"
  shows "unat (scast w :: 64 word) = nat (sint w)"
proof -
  have lt: "sint w < 2 ^ 31" using sint_lt[of w] by simp
  have "(scast w :: 64 word) = word_of_int (sint w)" by simp
  then have "uint (scast w :: 64 word) = sint w mod 2 ^ 64"
    by (simp only: uint_word_of_int) simp
  also have "\<dots> = sint w" using assms lt by simp
  finally show ?thesis by (simp add: unat_eq_nat_uint)
qed

lemma scast_times_32:
  fixes w :: "32 word"
  assumes "0 \<le> sint w"
  shows "unat (scast w * (32 :: 64 word)) = 32 * nat (sint w)"
proof -
  have a: "unat (scast w :: 64 word) = nat (sint w)" using assms by (rule sint_nonneg_scast)
  have "sint w < 2 ^ 31" using sint_lt[of w] by simp
  with assms have b: "nat (sint w) < 2 ^ 31" by simp
  have "unat (scast w * (32 :: 64 word)) = (unat (scast w :: 64 word) * unat (32 :: 64 word)) mod 2 ^ 64"
    by (simp add: unat_word_ariths)
  also have "\<dots> = (nat (sint w) * 32) mod 2 ^ 64" by (simp add: a)
  also have "\<dots> = nat (sint w) * 32" using b by simp
  finally show ?thesis by simp
qed

lemma f32_at_zero: "off + 3 < n \<Longrightarrow> f32_at (replicate n 0 @ rest) off = 0"
  by (simp add: f32_at_def nth_append)

lemma JonesF32_at_zero: "i < k \<Longrightarrow> JonesF32_at (replicate (32 * k) 0 @ rest) i = zero_JonesF32"
  by (simp add: JonesF32_at_def zero_JonesF32_def f32_at_zero)


lemma clear_vis_cases:
  obtains e m1 where
    "cudaMemset (d_vis a) 0 (scast (num_vis a) * sizeof_JonesF32) m = (e, m1)"
    "clear_vis a m = Returns a m1"
proof -
  obtain e m1 where c: "cudaMemset (d_vis a) 0 (scast (num_vis a) * sizeof_JonesF32) m = (e, m1)"
    by (cases "cudaMemset (d_vis a) 0 (scast (num_vis a) * sizeof_JonesF32) m")
  then have "clear_vis a m = Returns a m1"
    by (simp add: clear_vis_def bind_prog_def call_def return_prog_def)
  with c show ?thesis by (rule that)
qed

lemma cudaMemset_twice:
  assumes "fst (next_fault m) = cudaSuccess"
    and "cudaMemset d v n m = (e1, m1)" and "cudaMemset d v n m1 = (e2, m2)"
  shows "same_memory m1 m2"
  using assms
  by (cases "faults m"; cases "faults m1")
     (auto simp: cudaMemset_def same_memory_def next_fault_def fun_upd_idem
           split: if_splits option.splits)

lemma cudaMemset_fills:
  assumes "fst (next_fault m) = cudaSuccess" and "dev m d = Some blk" and "unat n \<le> length blk"
    and "cudaMemset d v n m = (e, m1)"
  shows "dev m1 d = Some (replicate (unat n) (ucast v) @ drop (unat n) blk)"
  using assms
  by (cases "faults m") (auto simp: cudaMemset_def next_fault_def)

text \<open>
  C4: when the runtime does not fail the call on its own, \<^verbatim>\<open>clear_vis\<close> run twice leaves
  the memory that \<^verbatim>\<open>clear_vis\<close> run once leaves; and if the context's \<^verbatim>\<open>d_vis\<close> is a
  device block that holds \<^verbatim>\<open>num_vis\<close> Jones matrices, then after \<^verbatim>\<open>clear_vis\<close> each of
  the \<^verbatim>\<open>num_vis\<close> matrices has all eight fields equal to the float \<open>+0.0\<close>.
\<close>

theorem clear_vis_zero_fills:
  assumes "fst (next_fault m) = cudaSuccess"
  shows "same_memory (final (clear_vis a m)) (final (bind_prog (clear_vis a) clear_vis m))
       \<and> (\<forall>blk. dev m (d_vis a) = Some blk \<and> 0 \<le> sint (num_vis a)
                 \<and> 32 * nat (sint (num_vis a)) \<le> length blk \<longrightarrow>
            (\<exists>blk'. dev (final (clear_vis a m)) (d_vis a) = Some blk' \<and> length blk' = length blk
               \<and> (\<forall>i < nat (sint (num_vis a)). JonesF32_at blk' i = zero_JonesF32)))"
proof (intro conjI allI impI)
  obtain e m1 where c1: "cudaMemset (d_vis a) 0 (scast (num_vis a) * sizeof_JonesF32) m = (e, m1)"
    and r1: "clear_vis a m = Returns a m1"
    by (rule clear_vis_cases)
  obtain e2 m2 where c2: "cudaMemset (d_vis a) 0 (scast (num_vis a) * sizeof_JonesF32) m1 = (e2, m2)"
    and r2: "clear_vis a m1 = Returns a m2"
    by (rule clear_vis_cases)
  from assms c1 c2 have "same_memory m1 m2" by (rule cudaMemset_twice)
  then show "same_memory (final (clear_vis a m)) (final (bind_prog (clear_vis a) clear_vis m))"
    by (simp add: r1 r2 bind_prog_def)
  fix blk
  assume valid: "dev m (d_vis a) = Some blk \<and> 0 \<le> sint (num_vis a)
                 \<and> 32 * nat (sint (num_vis a)) \<le> length blk"
  let ?k = "nat (sint (num_vis a))"
  from valid have n: "unat (scast (num_vis a) * sizeof_JonesF32) = 32 * ?k"
    by (simp add: sizeof_JonesF32_def scast_times_32)
  with valid have "unat (scast (num_vis a) * sizeof_JonesF32) \<le> length blk" by simp
  with assms valid c1 have "dev m1 (d_vis a) =
      Some (replicate (unat (scast (num_vis a) * sizeof_JonesF32)) (ucast (0 :: c_int))
            @ drop (unat (scast (num_vis a) * sizeof_JonesF32)) blk)"
    by (intro cudaMemset_fills) simp_all
  with n have d1: "dev m1 (d_vis a) = Some (replicate (32 * ?k) 0 @ drop (32 * ?k) blk)" by simp
  have "\<forall>i < ?k. JonesF32_at (replicate (32 * ?k) 0 @ drop (32 * ?k) blk) i = zero_JonesF32"
    by (simp add: JonesF32_at_zero)
  with d1 valid
  show "\<exists>blk'. dev (final (clear_vis a m)) (d_vis a) = Some blk' \<and> length blk' = length blk
               \<and> (\<forall>i < nat (sint (num_vis a)). JonesF32_at blk' i = zero_JonesF32)"
    by (simp add: r1)
qed


theorem clear_vis_zero_fills_witness:
  "fst (next_fault loaded_machine) = cudaSuccess
   \<and> same_memory (final (clear_vis small_context loaded_machine))
        (final (bind_prog (clear_vis small_context) clear_vis loaded_machine))
   \<and> dev loaded_machine (d_vis small_context) = Some (replicate 32 5)
   \<and> 0 \<le> sint (num_vis small_context)
   \<and> 32 * nat (sint (num_vis small_context)) \<le> length (replicate 32 (5::byte))
   \<and> (\<exists>blk'. dev (final (clear_vis small_context loaded_machine)) (d_vis small_context) = Some blk'
          \<and> length blk' = length (replicate 32 (5::byte))
          \<and> (\<forall>i < nat (sint (num_vis small_context)). JonesF32_at blk' i = zero_JonesF32))"
proof -
  have ok: "fst (next_fault loaded_machine) = cudaSuccess"
    by (simp add: next_fault_def loaded_machine_def small_machine_def)
  have valid: "dev loaded_machine (d_vis small_context) = Some (replicate 32 5)
      \<and> 0 \<le> sint (num_vis small_context)
      \<and> 32 * nat (sint (num_vis small_context)) \<le> length (replicate 32 (5::byte))"
    by (simp add: loaded_machine_def small_context_def)
  from clear_vis_zero_fills[OF ok, of small_context]
  have idem: "same_memory (final (clear_vis small_context loaded_machine))
        (final (bind_prog (clear_vis small_context) clear_vis loaded_machine))"
    and zero: "\<forall>blk. dev loaded_machine (d_vis small_context) = Some blk
                 \<and> 0 \<le> sint (num_vis small_context)
                 \<and> 32 * nat (sint (num_vis small_context)) \<le> length blk \<longrightarrow>
            (\<exists>blk'. dev (final (clear_vis small_context loaded_machine)) (d_vis small_context) = Some blk'
               \<and> length blk' = length blk
               \<and> (\<forall>i < nat (sint (num_vis small_context)). JonesF32_at blk' i = zero_JonesF32))"
    by blast+
  from zero valid have "\<exists>blk'. dev (final (clear_vis small_context loaded_machine)) (d_vis small_context) = Some blk'
          \<and> length blk' = length (replicate 32 (5::byte))
          \<and> (\<forall>i < nat (sint (num_vis small_context)). JonesF32_at blk' i = zero_JonesF32)"
    by blast
  with ok idem valid show ?thesis by blast
qed

section \<open>The counts of a context\<close>

lemma init_model_fields:
  "ensures (init_model b nb nf nt sl sn sc sdx uvws freqs sbv fee nfc nut nuf jmap bnorm vis) m
     (\<lambda>a _. num_freqs a = nf \<and> num_vis a = nb * nf \<and> num_tiles a = nt \<and> sbf_l a = sl
             \<and> sbf_n a = sn \<and> d_fee_coeffs a = fee \<and> d_beam_jones_map a = jmap
             \<and> d_beam_norm_jones a = bnorm \<and> host_vis a = vis)
     (\<lambda>_ _. True)"
  unfolding init_model_def Let_def
  by (rule vcg)+ simp_all

lemma destroy_context:
  "ensures (destroy b a) m (\<lambda>a' _. a' = a) (\<lambda>_ _. True)"
  unfolding destroy_def
  by (rule vcg)+ simp_all

lemma run_op_context: "run_op b opn a m = Returns a' m' \<Longrightarrow> a' = a"
proof (cases opn)
  case ClearVis
  assume "run_op b opn a m = Returns a' m'"
  with ClearVis show ?thesis
    by (rule_tac clear_vis_cases[of a m]) simp
next
  case CopyVis
  assume "run_op b opn a m = Returns a' m'"
  with CopyVis show ?thesis
    by (rule_tac copy_vis_cases[of a m b]) (simp split: if_splits)
next
  case Destroy
  assume "run_op b opn a m = Returns a' m'"
  with Destroy destroy_context[of b a m] show ?thesis
    by (simp add: ensures_def)
next
  case (Model k)
  assume "run_op b opn a m = Returns a' m'"
  with Model show ?thesis
    by (cases "k a m") (simp_all add: bind_prog_def return_prog_def)
qed

lemma run_ops_context: "run_ops b opns a m = Returns a' m' \<Longrightarrow> a' = a"
proof (induction opns arbitrary: a m)
  case Nil
  then show ?case by (simp add: return_prog_def)
next
  case (Cons opn opns)
  show ?case
  proof (cases "run_op b opn a m")
    case (Returns a1 m1)
    then have "a1 = a" by (rule run_op_context)
    moreover from Cons.prems Returns have "run_ops b opns a1 m1 = Returns a' m'"
      by (simp add: bind_prog_def)
    then have "a' = a1" by (rule Cons.IH)
    ultimately show ?thesis by simp
  next
    case (Exits e m1)
    with Cons.prems show ?thesis by (simp add: bind_prog_def)
  qed
qed

lemma sint_mult_no_overflow:
  fixes x y :: "32 word"
  assumes "- (2 ^ 31) \<le> sint x * sint y" and "sint x * sint y < 2 ^ 31"
  shows "sint (x * y) = sint x * sint y"
proof -
  have "sint (x * y) = signed_take_bit 31 (sint x * sint y)"
    by (simp add: sint_word_ariths)
  also have "\<dots> = sint x * sint y"
    using assms by (simp add: signed_take_bit_int_eq_self)
  finally show ?thesis .
qed

text \<open>
  C5: in a context returned by \<^verbatim>\<open>init_model\<close>, \<^verbatim>\<open>num_vis\<close> is the \<^verbatim>\<open>int\<close> product
  \<^verbatim>\<open>num_baselines * num_freqs\<close> (the product of the two numbers when that fits an
  \<^verbatim>\<open>int\<close>), and whatever sequence of \<^verbatim>\<open>clear_vis\<close>, \<^verbatim>\<open>copy_vis\<close>, \<^verbatim>\<open>destroy\<close> and
  modelling kernels is then applied, the context is left as it was: no count changes.
\<close>

theorem context_counts_fixed:
  assumes "init_model b nb nf nt sl sn sc sdx uvws freqs sbv fee nfc nut nuf jmap bnorm vis m
             = Returns a m1"
    and "run_ops b opns a m1 = Returns a' m2"
  shows "num_vis a = nb * nf
       \<and> (- (2 ^ 31) \<le> sint nb * sint nf \<and> sint nb * sint nf < 2 ^ 31 \<longrightarrow>
            sint (num_vis a) = sint nb * sint nf)
       \<and> num_freqs a = nf \<and> num_tiles a = nt \<and> sbf_l a = sl \<and> sbf_n a = sn
       \<and> num_freqs a' = num_freqs a \<and> num_vis a' = num_vis a \<and> num_tiles a' = num_tiles a
       \<and> sbf_l a' = sbf_l a \<and> sbf_n a' = sbf_n a \<and> a' = a"
proof -
  from assms(2) have same: "a' = a" by (rule run_ops_context)
  from init_model_fields[of b nb nf nt sl sn sc sdx uvws freqs sbv fee nfc nut nuf jmap bnorm vis m]
    assms(1)
  have fields: "num_freqs a = nf \<and> num_vis a = nb * nf \<and> num_tiles a = nt \<and> sbf_l a = sl \<and> sbf_n a = sn"
    by (simp add: ensures_def)
  then have "- (2 ^ 31) \<le> sint nb * sint nf \<and> sint nb * sint nf < 2 ^ 31 \<longrightarrow>
            sint (num_vis a) = sint nb * sint nf"
    by (simp add: sint_mult_no_overflow)
  with same fields show ?thesis by simp
qed


theorem context_counts_fixed_witness:
  "\<exists>a m1 a' m2.
      init_model soft_build 1 1 1 1 1 (0::real) 0 100 200 300 0 0 0 0 0 0 400 (small_machine 1000)
        = Returns a m1
    \<and> run_ops soft_build [ClearVis, Model (\<lambda>_. return_prog 0), CopyVis, Destroy] a m1
        = Returns a' m2
    \<and> num_vis a = 1 \<and> sint (num_vis a) = 1 \<and> a' = a"
proof -
  let ?init = "init_model soft_build 1 1 1 1 1 (0::real) 0 100 200 300 0 0 0 0 0 0 400
                 (small_machine 1000)"
  let ?opns = "[ClearVis, Model (\<lambda>_. return_prog 0), CopyVis, Destroy] :: real operation list"
  obtain a m1 where i: "?init = Returns a m1"
    by (cases ?init) (simp_all add: run_simps soft_build_def small_machine_def one_vis_bytes_def)
  have "\<exists>a' m2. run_ops soft_build ?opns a m1 = Returns a' m2"
    using i by (auto simp: run_simps soft_build_def small_machine_def one_vis_bytes_def)
  then obtain a' m2 where r: "run_ops soft_build ?opns a m1 = Returns a' m2" by blast
  from context_counts_fixed[OF i r] i r show ?thesis by simp
qed

section \<open>Releasing the context\<close>

lemma cudaFree_frame:
  "cudaFree p m = (e, m') \<Longrightarrow> host m' = host m \<and> (\<forall>q. q \<noteq> p \<longrightarrow> dev m' q = dev m q)"
  by (rule next_fault_cases[of m]) (auto simp: cudaFree_def split: if_splits option.splits)

lemma cudaFree_none: "cudaFree p m = (e, m') \<Longrightarrow> dev m q = None \<Longrightarrow> dev m' q = None"
  by (rule next_fault_cases[of m]) (auto simp: cudaFree_def split: if_splits option.splits)

lemma cudaFree_frees:
  "cudaFree p m = (e, m') \<Longrightarrow> faults m = [] \<Longrightarrow>
     faults m' = [] \<and> (p \<noteq> NULL \<longrightarrow> dev m' p = None)"
  by (auto simp: cudaFree_def next_fault_def split: if_splits option.splits)

lemma cudaFree_outside:
  "cudaFree p m = (e, m') \<Longrightarrow> p \<in> S \<Longrightarrow>
     host m' = host m \<and> (\<forall>q. q \<notin> S \<longrightarrow> dev m' q = dev m q)"
  by (drule cudaFree_frame) auto

lemma destroy_frame:
  assumes "d_uvws a \<in> S" "d_freqs a \<in> S" "d_shapelet_basis_values a \<in> S" "d_vis a \<in> S"
  shows "keeps (\<lambda>m m'. host m' = host m \<and> (\<forall>q. q \<notin> S \<longrightarrow> dev m' q = dev m q)) (destroy b a)"
  unfolding destroy_def
  by (intro keeps_intros; (erule cudaFree_outside, rule assms)?; simp)

lemma destroy_frees:
  assumes "faults m = []"
  shows "ensures (destroy b a) m
           (\<lambda>a' m'. a' = a \<and> faults m' = [] \<and>
               (\<forall>p \<in> {d_uvws a, d_freqs a, d_shapelet_basis_values a, d_vis a}.
                   p \<noteq> NULL \<longrightarrow> dev m' p = None)
             \<and> (\<forall>q. dev m q = None \<longrightarrow> dev m' q = None))
           (\<lambda>_ _. True)"
  unfolding destroy_def
  apply (rule vcg)+
  using assms
      apply simp_all
  apply (intro conjI)
  subgoal by (auto dest!: cudaFree_frees)
  subgoal by (auto dest: cudaFree_frees cudaFree_none)
  subgoal by (auto dest: cudaFree_frees cudaFree_none)
  subgoal by (auto dest: cudaFree_frees cudaFree_none)
  subgoal by (auto dest: cudaFree_frees cudaFree_none)
  subgoal by (auto dest: cudaFree_none)
  done

lemma fresh_since_start: "wf_machine m \<Longrightarrow> faults m = [] \<Longrightarrow> fresh_since m m {}"
  by (auto simp: fresh_since_def)

lemma fresh_since_malloc:
  assumes "fresh_since m0 m S" and "cudaMalloc NULL s m = ((e, q), m')"
  shows "fresh_since m0 m' (S \<union> ({q} - {NULL}))"
  using assms
  by (auto simp: fresh_since_def wf_machine_def cudaMalloc_def next_fault_def NULL_def
           split: if_splits)

lemma fresh_since_memcpy:
  assumes "fresh_since m0 m S" and "d = NULL \<or> d \<in> S"
    and "cudaMemcpy d s n cudaMemcpyHostToDevice m = (e, m')"
  shows "fresh_since m0 m' S"
  using assms
  by (auto simp: fresh_since_def wf_machine_def cudaMemcpy_def next_fault_def NULL_def
           split: if_splits option.splits)

lemma init_model_fresh:
  assumes "wf_machine m" and "faults m = []"
  shows "ensures (init_model b nb nf nt sl sn sc sdx uvws freqs sbv fee nfc nut nuf jmap bnorm vis) m
           (\<lambda>a m1. fresh_since m m1
                      ({d_uvws a, d_freqs a, d_shapelet_basis_values a, d_vis a} - {NULL}))
           (\<lambda>_ _. True)"
  unfolding init_model_def Let_def
  apply (rule vcg)+
          apply simp_all
  subgoal premises prems for e1 q1 m1 e2 m2 e3 q2 m3 e4 m4 e5 q3 m5 e6 m6 e7 q4 m7 e8 m8
  proof -
    from assms have "fresh_since m m {}" by (rule fresh_since_start)
    from this prems(1) have "fresh_since m m1 ({} \<union> ({q1} - {NULL}))" by (rule fresh_since_malloc)
    then have s1: "fresh_since m m1 ({q1} - {NULL})" by simp
    from s1 _ prems(2) have s2: "fresh_since m m2 ({q1} - {NULL})"
      by (rule fresh_since_memcpy) auto
    from s2 prems(3) have s3: "fresh_since m m3 (({q1} - {NULL}) \<union> ({q2} - {NULL}))"
      by (rule fresh_since_malloc)
    from s3 _ prems(4) have s4: "fresh_since m m4 (({q1} - {NULL}) \<union> ({q2} - {NULL}))"
      by (rule fresh_since_memcpy) auto
    from s4 prems(5) have s5: "fresh_since m m5 (({q1} - {NULL}) \<union> ({q2} - {NULL}) \<union> ({q3} - {NULL}))"
      by (rule fresh_since_malloc)
    from s5 _ prems(6) have s6: "fresh_since m m6 (({q1} - {NULL}) \<union> ({q2} - {NULL}) \<union> ({q3} - {NULL}))"
      by (rule fresh_since_memcpy) auto
    from s6 prems(7) have s7: "fresh_since m m7
        (({q1} - {NULL}) \<union> ({q2} - {NULL}) \<union> ({q3} - {NULL}) \<union> ({q4} - {NULL}))"
      by (rule fresh_since_malloc)
    from s7 _ prems(8) have s8: "fresh_since m m8
        (({q1} - {NULL}) \<union> ({q2} - {NULL}) \<union> ({q3} - {NULL}) \<union> ({q4} - {NULL}))"
      by (rule fresh_since_memcpy) auto
    have "({q1} - {NULL}) \<union> ({q2} - {NULL}) \<union> ({q3} - {NULL}) \<union> ({q4} - {NULL})
        = {q1, q2, q3, q4} - {NULL}" by auto
    with s8 show ?thesis by simp
  qed
  done


lemma destroy_after_init:
  assumes wf: "wf_machine m0" and nf: "faults m0 = []"
    and init: "init_model b nb nf nt sl sn sc sdx uvws freqs sbv fee nfc nut nuf jmap bnorm vis m0
                 = Returns a m"
    and destr: "destroy b a m = Returns a' m'"
  shows "dev m' = dev m0"
proof -
  let ?four = "{d_uvws a, d_freqs a, d_shapelet_basis_values a, d_vis a}"
  from init_model_fresh[OF wf nf, of b nb nf nt sl sn sc sdx uvws freqs sbv fee nfc nut nuf jmap bnorm vis]
    init
  have fresh: "fresh_since m0 m (?four - {NULL})" by (simp add: ensures_def)
  then have wfm: "wf_machine m" and nfm: "faults m = []"
    and old: "\<And>p. p < next_ptr m0 \<Longrightarrow> dev m p = dev m0 p"
    and new: "?four - {NULL} = {p. next_ptr m0 \<le> p \<and> p < next_ptr m}"
    by (simp_all add: fresh_since_def)
  from destroy_frees[OF nfm, of b a] destr
  have freed: "\<And>p. p \<in> ?four \<Longrightarrow> p \<noteq> NULL \<Longrightarrow> dev m' p = None"
    and none: "\<And>q. dev m q = None \<Longrightarrow> dev m' q = None"
    by (auto simp: ensures_def)
  have "keeps (\<lambda>m m'. host m' = host m \<and> (\<forall>q. q \<notin> ?four \<longrightarrow> dev m' q = dev m q)) (destroy b a)"
    by (rule destroy_frame) simp_all
  then have "\<forall>q. q \<notin> ?four \<longrightarrow> dev (final (destroy b a m)) q = dev m q"
    by (simp add: keeps_def)
  with destr have frame: "\<And>q. q \<notin> ?four \<Longrightarrow> dev m' q = dev m q"
    by simp
  show ?thesis
  proof
    fix p
    show "dev m' p = dev m0 p"
    proof (cases "p = NULL")
      case True
      with wfm wf none show ?thesis by (simp add: wf_machine_def)
    next
      case nonnull: False
      show ?thesis
      proof (cases "p \<in> ?four")
        case True
        with nonnull have "dev m' p = None" by (intro freed)
        moreover from True nonnull have "p \<in> ?four - {NULL}" by simp
        with new have "next_ptr m0 \<le> p" by simp
        with wf have "dev m0 p = None" by (simp add: wf_machine_def)
        ultimately show ?thesis by simp
      next
        case False
        then have same: "dev m' p = dev m p" by (rule frame)
        show ?thesis
        proof (cases "p < next_ptr m0")
          case True
          with same old show ?thesis by simp
        next
          case False
          from \<open>p \<notin> ?four\<close> have "p \<notin> ?four - {NULL}" by simp
          with new False have "next_ptr m \<le> p" by simp
          with wfm have "dev m p = None" by (simp add: wf_machine_def)
          moreover from False wf have "dev m0 p = None" by (simp add: wf_machine_def)
          ultimately show ?thesis using same by simp
        qed
      qed
    qed
  qed
qed

text \<open>
  C9: \<^verbatim>\<open>destroy\<close> leaves the host memory alone (so the buffer \<^verbatim>\<open>host_vis\<close> points to),
  and every device block other than the four the context names in \<^verbatim>\<open>d_uvws\<close>,
  \<^verbatim>\<open>d_freqs\<close>, \<^verbatim>\<open>d_shapelet_basis_values\<close> and \<^verbatim>\<open>d_vis\<close>; it leaves the context as it
  was, the pointers it did not allocate included; when the runtime fails no call on its
  own and \<^verbatim>\<open>destroy\<close> returns, none of the four pointers names a device block any more.
  For a context that \<^verbatim>\<open>init_model\<close> returned on a well-formed machine, those four are
  the blocks \<^verbatim>\<open>init_model\<close> allocated: after \<^verbatim>\<open>destroy\<close> the device blocks are those
  that existed before \<^verbatim>\<open>init_model\<close>.
\<close>

theorem destroy_frees_its_four_buffers:
  "host (final (destroy b a m)) = host m
   \<and> (\<forall>p. p \<notin> {d_uvws a, d_freqs a, d_shapelet_basis_values a, d_vis a} \<longrightarrow>
          dev (final (destroy b a m)) p = dev m p)
   \<and> (\<forall>a' m'. destroy b a m = Returns a' m' \<longrightarrow>
          a' = a \<and>
          (faults m = [] \<longrightarrow>
             (\<forall>p \<in> {d_uvws a, d_freqs a, d_shapelet_basis_values a, d_vis a}.
                 p \<noteq> NULL \<longrightarrow> dev m' p = None)))
   \<and> (\<forall>m0 nb nf nt sl sn sc sdx uvws freqs sbv fee nfc nut nuf jmap bnorm vis a' m'.
          wf_machine m0 \<and> faults m0 = []
          \<and> init_model b nb nf nt sl sn sc sdx uvws freqs sbv fee nfc nut nuf jmap bnorm vis m0
              = Returns a m
          \<and> destroy b a m = Returns a' m' \<longrightarrow>
          dev m' = dev m0 \<and> d_fee_coeffs a' = fee \<and> d_beam_jones_map a' = jmap
          \<and> d_beam_norm_jones a' = bnorm \<and> host_vis a' = vis)"
proof (intro conjI allI impI)
  let ?four = "{d_uvws a, d_freqs a, d_shapelet_basis_values a, d_vis a}"
  have fr: "keeps (\<lambda>m m'. host m' = host m \<and> (\<forall>q. q \<notin> ?four \<longrightarrow> dev m' q = dev m q)) (destroy b a)"
    by (rule destroy_frame) simp_all
  then show "host (final (destroy b a m)) = host m" by (simp add: keeps_def)
  show "dev (final (destroy b a m)) p = dev m p" if "p \<notin> ?four" for p
    using fr that by (simp add: keeps_def)
  show "a' = a" if "destroy b a m = Returns a' m'" for a' m'
    using destroy_context[of b a m] that by (simp add: ensures_def)
  show "\<forall>p \<in> ?four. p \<noteq> NULL \<longrightarrow> dev m' p = None"
    if "destroy b a m = Returns a' m'" and "faults m = []" for a' m'
    using destroy_frees[OF that(2), of b a] that(1) by (simp add: ensures_def)
next
  fix m0 nb nf nt sl sn sc sdx uvws freqs sbv fee nfc nut nuf jmap bnorm vis a' m'
  assume h: "wf_machine m0 \<and> faults m0 = []
          \<and> init_model b nb nf nt sl sn sc sdx uvws freqs sbv fee nfc nut nuf jmap bnorm vis m0
              = Returns a m
          \<and> destroy b a m = Returns a' m'"
  then have "wf_machine m0" and "faults m0 = []"
    and "init_model b nb nf nt sl sn sc sdx uvws freqs sbv fee nfc nut nuf jmap bnorm vis m0
           = Returns a m"
    and "destroy b a m = Returns a' m'"
    by simp_all
  then show "dev m' = dev m0" by (rule destroy_after_init)
  from h destroy_context[of b a m] have same: "a' = a" by (simp add: ensures_def)
  from h init_model_fields[of b nb nf nt sl sn sc sdx uvws freqs sbv fee nfc nut nuf jmap bnorm vis m0]
  have "d_fee_coeffs a = fee \<and> d_beam_jones_map a = jmap \<and> d_beam_norm_jones a = bnorm
      \<and> host_vis a = vis"
    by (simp add: ensures_def)
  with same show "d_fee_coeffs a' = fee" "d_beam_jones_map a' = jmap"
    "d_beam_norm_jones a' = bnorm" "host_vis a' = vis" by simp_all
qed

theorem destroy_frees_its_four_buffers_witness:
  "\<exists>a m a' m'.
      wf_machine (small_machine 1000) \<and> faults (small_machine 1000) = []
    \<and> init_model soft_build 1 1 1 1 1 (0::real) 0 100 200 300 0 0 0 0 0 0 400 (small_machine 1000)
        = Returns a m
    \<and> destroy soft_build a m = Returns a' m'
    \<and> faults m = []
    \<and> 9 \<notin> {d_uvws a, d_freqs a, d_shapelet_basis_values a, d_vis a}
    \<and> d_vis a \<in> {d_uvws a, d_freqs a, d_shapelet_basis_values a, d_vis a} \<and> d_vis a \<noteq> NULL
    \<and> host (final (destroy soft_build a m)) = host m
    \<and> dev (final (destroy soft_build a m)) 9 = dev m 9
    \<and> a' = a \<and> dev m' (d_vis a) = None
    \<and> dev m' = dev (small_machine 1000) \<and> host_vis a' = 400"
proof -
  let ?init = "init_model soft_build 1 1 1 1 1 (0::real) 0 100 200 300 0 0 0 0 0 0 400
                 (small_machine 1000)"
  have wf: "wf_machine (small_machine 1000)" and nf: "faults (small_machine 1000) = []"
    by (simp_all add: wf_machine_def small_machine_def NULL_def)
  obtain a m where i: "?init = Returns a m"
    by (cases ?init) (simp_all add: run_simps soft_build_def small_machine_def one_vis_bytes_def)
  then have shape: "faults m = [] \<and> 9 \<notin> {d_uvws a, d_freqs a, d_shapelet_basis_values a, d_vis a}
      \<and> d_vis a \<noteq> NULL"
    by (auto simp: run_simps soft_build_def small_machine_def one_vis_bytes_def)
  have "\<exists>a' m'. destroy soft_build a m = Returns a' m'"
    using i by (auto simp: run_simps soft_build_def small_machine_def one_vis_bytes_def)
  then obtain a' m' where d: "destroy soft_build a m = Returns a' m'" by blast
  note inst = destroy_frees_its_four_buffers[of soft_build a m]
  from inst have t1: "host (final (destroy soft_build a m)) = host m"
    by (rule conjunct1)
  from inst have c2: "\<forall>p. p \<notin> {d_uvws a, d_freqs a, d_shapelet_basis_values a, d_vis a} \<longrightarrow>
          dev (final (destroy soft_build a m)) p = dev m p"
    by (rule conjunct2[THEN conjunct1])
  from inst have c3: "\<forall>a' m'. destroy soft_build a m = Returns a' m' \<longrightarrow>
          a' = a \<and>
          (faults m = [] \<longrightarrow>
             (\<forall>p \<in> {d_uvws a, d_freqs a, d_shapelet_basis_values a, d_vis a}.
                 p \<noteq> NULL \<longrightarrow> dev m' p = None))"
    by (rule conjunct2[THEN conjunct2, THEN conjunct1])
  from inst have c4: "\<forall>m0 nb nf nt sl sn sc sdx uvws freqs sbv fee nfc nut nuf jmap bnorm vis a' m'.
          wf_machine m0 \<and> faults m0 = []
          \<and> init_model soft_build nb nf nt sl sn sc sdx uvws freqs sbv fee nfc nut nuf jmap bnorm vis m0
              = Returns a m
          \<and> destroy soft_build a m = Returns a' m' \<longrightarrow>
          dev m' = dev m0 \<and> d_fee_coeffs a' = fee \<and> d_beam_jones_map a' = jmap
          \<and> d_beam_norm_jones a' = bnorm \<and> host_vis a' = vis"
    by (rule conjunct2[THEN conjunct2, THEN conjunct2])
  from c2[rule_format, of 9] shape have t2: "dev (final (destroy soft_build a m)) 9 = dev m 9"
    by simp
  from c3[rule_format, OF d] shape have t3: "a' = a" and t4: "dev m' (d_vis a) = None"
    by simp_all
  from c4[rule_format, OF conjI[OF wf conjI[OF nf conjI[OF i d]]]]
  have t5: "dev m' = dev (small_machine 1000) \<and> host_vis a' = 400" by simp
  from wf nf i d shape t1 t2 t3 t4 t5 show ?thesis by (intro exI[of _ a] exI[of _ m] exI[of _ a'] exI[of _ m']) simp
qed


section \<open>What the modelling kernels change\<close>

lemma model_points_frame:
  "snd (model_points N launch A) = A\<lparr>sky_vis := sky_vis (snd (model_points N launch A))\<rparr>
   \<and> length (sky_vis (snd (model_points N launch A))) = length (sky_vis A)"
  by (simp add: model_points_def accumulate_def)

lemma model_gaussians_frame:
  "snd (model_gaussians N launch A) = A\<lparr>sky_vis := sky_vis (snd (model_gaussians N launch A))\<rparr>
   \<and> length (sky_vis (snd (model_gaussians N launch A))) = length (sky_vis A)"
  by (simp add: model_gaussians_def accumulate_def)

lemma model_shapelets_frame:
  "snd (model_shapelets N launch A) = A\<lparr>sky_vis := sky_vis (snd (model_shapelets N launch A))\<rparr>
   \<and> length (sky_vis (snd (model_shapelets N launch A))) = length (sky_vis A)"
  by (simp add: model_shapelets_def accumulate_def)

lemma model_timestep_frame:
  "snd (model_timestep N l1 l2 l3 A) = A\<lparr>sky_vis := sky_vis (snd (model_timestep N l1 l2 l3 A))\<rparr>
   \<and> length (sky_vis (snd (model_timestep N l1 l2 l3 A))) = length (sky_vis A)"
proof -
  obtain s1 A1 where p: "model_points N l1 A = (s1, A1)" by (cases "model_points N l1 A")
  obtain s2 A2 where g: "model_gaussians N l2 A1 = (s2, A2)" by (cases "model_gaussians N l2 A1")
  obtain s3 A3 where s: "model_shapelets N l3 A2 = (s3, A3)" by (cases "model_shapelets N l3 A2")
  from p model_points_frame[of N l1 A]
  have f1: "A1 = A\<lparr>sky_vis := sky_vis A1\<rparr>" "length (sky_vis A1) = length (sky_vis A)" by simp_all
  from g model_gaussians_frame[of N l2 A1]
  have f2: "A2 = A1\<lparr>sky_vis := sky_vis A2\<rparr>" "length (sky_vis A2) = length (sky_vis A1)" by simp_all
  from s model_shapelets_frame[of N l3 A2]
  have f3: "A3 = A2\<lparr>sky_vis := sky_vis A3\<rparr>" "length (sky_vis A3) = length (sky_vis A2)" by simp_all
  from f1(1) f2(1) have g2: "A2 = A\<lparr>sky_vis := sky_vis A2\<rparr>"
    by (metis sky.update_convs(15) sky.surjective)
  from g2 f3(1) have g3: "A3 = A\<lparr>sky_vis := sky_vis A3\<rparr>"
    by (metis sky.update_convs(15) sky.surjective)
  have "snd (model_timestep N l1 l2 l3 A) = A1 \<or> snd (model_timestep N l1 l2 l3 A) = A2
      \<or> snd (model_timestep N l1 l2 l3 A) = A3"
    by (simp add: model_timestep_def p g s)
  with f1 f2 f3 g2 g3 show ?thesis by auto
qed

text \<open>
  C7: of all the arrays handed to \<^verbatim>\<open>model_timestep\<close>, and to each of \<^verbatim>\<open>model_points\<close>,
  \<^verbatim>\<open>model_gaussians\<close> and \<^verbatim>\<open>model_shapelets\<close>, only the visibilities differ after the
  call: the arrays after the call are the arrays before it with the visibilities
  replaced, and there are as many visibilities as before.
\<close>

theorem kernels_mutate_only_vis:
  "snd (model_timestep N l1 l2 l3 A) = A\<lparr>sky_vis := sky_vis (snd (model_timestep N l1 l2 l3 A))\<rparr>
   \<and> length (sky_vis (snd (model_timestep N l1 l2 l3 A))) = length (sky_vis A)
   \<and> snd (model_points N l A) = A\<lparr>sky_vis := sky_vis (snd (model_points N l A))\<rparr>
   \<and> length (sky_vis (snd (model_points N l A))) = length (sky_vis A)
   \<and> snd (model_gaussians N l A) = A\<lparr>sky_vis := sky_vis (snd (model_gaussians N l A))\<rparr>
   \<and> length (sky_vis (snd (model_gaussians N l A))) = length (sky_vis A)
   \<and> snd (model_shapelets N l A) = A\<lparr>sky_vis := sky_vis (snd (model_shapelets N l A))\<rparr>
   \<and> length (sky_vis (snd (model_shapelets N l A))) = length (sky_vis A)"
  using model_timestep_frame[of N l1 l2 l3 A] model_points_frame[of N l A]
    model_gaussians_frame[of N l A] model_shapelets_frame[of N l A]
  by simp

end
